theory Spec2Isabelle
  imports Complex_Main
begin

section \<open>The schema of the mechanic booking platform\<close>

text \<open>
  The tables of \<^verbatim>\<open>supabase/migrations/20260214133256_create_mechanic_platform_schema.sql\<close>.
  A row is a record whose fields are the columns, prefixed by the table's initial
  (\<open>b_customer_id\<close> is \<^verbatim>\<open>bookings.customer_id\<close>, \<open>r_customer_id\<close> is
  \<^verbatim>\<open>reviews.customer_id\<close>), since several tables share column names.
  A \<^verbatim>\<open>uuid\<close> is a natural number, a \<^verbatim>\<open>timestamptz\<close> a natural number of
  clock ticks, \<^verbatim>\<open>numeric\<close> a rational (the type's special values NaN and infinity
  are left out), \<^verbatim>\<open>integer\<close> an integer whose 32-bit range is checked where a
  value enters the store, \<^verbatim>\<open>text\<close> a string of bytes, the text in UTF-8.
  A nullable column is an option; a \<^verbatim>\<open>NOT NULL\<close> column is not.
  A table is the list of its rows in insertion order.
\<close>

type_synonym uuid = nat
type_synonym timestamptz = nat

record profile =
  p_id :: uuid
  p_email :: string
  p_full_name :: string
  p_phone :: "string option"
  p_user_type :: string
  p_created_at :: "timestamptz option"
  p_updated_at :: "timestamptz option"

record mechanic =
  m_id :: uuid
  m_user_id :: uuid
  m_business_name :: string
  m_certifications :: "string list option"
  m_years_experience :: "int option"
  m_service_radius :: "int option"
  m_rating :: "rat option"
  m_total_jobs :: "int option"
  m_is_available :: "bool option"
  m_current_latitude :: "rat option"
  m_current_longitude :: "rat option"
  m_created_at :: "timestamptz option"

record service =
  s_id :: uuid
  s_name :: string
  s_description :: string
  s_category :: string
  s_base_price :: rat
  s_estimated_duration :: int
  s_created_at :: "timestamptz option"

record booking =
  b_id :: uuid
  b_customer_id :: uuid
  b_mechanic_id :: "uuid option"
  b_service_id :: uuid
  b_status :: string
  b_vehicle_make :: string
  b_vehicle_model :: string
  b_vehicle_year :: int
  b_location_address :: string
  b_location_latitude :: rat
  b_location_longitude :: rat
  b_scheduled_time :: timestamptz
  b_total_price :: rat
  b_notes :: "string option"
  b_created_at :: "timestamptz option"
  b_updated_at :: "timestamptz option"

record review =
  r_id :: uuid
  r_booking_id :: uuid
  r_customer_id :: uuid
  r_mechanic_id :: uuid
  r_rating :: int
  r_comment :: "string option"
  r_created_at :: "timestamptz option"

record database =
  profiles :: "profile list"
  mechanics :: "mechanic list"
  services :: "service list"
  bookings :: "booking list"
  reviews :: "review list"

text \<open>
  What the store itself supplies to a statement: the value \<^verbatim>\<open>gen_random_uuid()\<close>
  returns for the row's \<^verbatim>\<open>id\<close> default and the value of \<^verbatim>\<open>now()\<close>.
\<close>

record env =
  gen_random_uuid :: uuid
  now :: timestamptz

text \<open>
  The outcomes of a failed operation, named as the specification's taxonomy names them.
  \<open>ValidationError\<close> carries the message the client shows for its own guard.
  Of the store's errors, a row-level-security violation is \<open>AuthorizationError\<close>, a
  foreign-key violation is \<open>NotFoundError\<close> (with the constraint's name), and a
  not-null, check, primary-key or integer-range violation is \<open>ConstraintViolation\<close>
  (with the constraint's name). A number that is no \<^verbatim>\<open>integer\<close> of 32 bits is
  refused when the request is read, before any policy: "integer out of range", or
  "invalid input syntax" where the client wrote the number with an exponent; both are
  \<open>ConstraintViolation ''integer out of range''\<close> here.
\<close>

datatype error =
    ValidationError string
  | AuthorizationError
  | NotFoundError string
  | ConstraintViolation string

subsection \<open>Check constraints\<close>

definition valid_user_type :: "string \<Rightarrow> bool" where
  "valid_user_type t = (t \<in> set [''customer'', ''mechanic''])"

definition valid_category :: "string \<Rightarrow> bool" where
  "valid_category c = (c \<in> set [''repair'', ''maintenance'', ''inspection'', ''emergency''])"

definition valid_status :: "string \<Rightarrow> bool" where
  "valid_status s =
     (s \<in> set [''pending'', ''accepted'', ''in_progress'', ''completed'', ''cancelled''])"

definition valid_rating :: "int \<Rightarrow> bool" where
  "valid_rating n = (n \<ge> 1 \<and> n \<le> 5)"

definition int4_range :: "int \<Rightarrow> bool" where
  "int4_range n = (- 2147483648 \<le> n \<and> n \<le> 2147483647)"

subsection \<open>Row-level security policies\<close>

text \<open>
  Every policy is \<^verbatim>\<open>TO authenticated\<close>: the predicates below take the value of
  \<^verbatim>\<open>auth.uid()\<close> of an authenticated principal. An unauthenticated request has
  no policy at all, which row-level security treats as a denial; the operations below
  write that case out. Several permissive policies for one command are combined by
  disjunction, the \<^verbatim>\<open>USING\<close> expressions among themselves and the
  \<^verbatim>\<open>WITH CHECK\<close> expressions among themselves.
\<close>

definition own_mechanic_ids :: "database \<Rightarrow> uuid \<Rightarrow> uuid list" where
  \<comment> \<open>\<^verbatim>\<open>SELECT id FROM mechanics WHERE user_id = auth.uid()\<close>; every mechanic row
      is visible to an authenticated principal ("Anyone can view mechanics").\<close>
  "own_mechanic_ids db uid = map m_id (filter (\<lambda>m. m_user_id m = uid) (mechanics db))"

definition mechanic_id_in :: "uuid option \<Rightarrow> uuid list \<Rightarrow> bool" where
  \<comment> \<open>\<^verbatim>\<open>mechanic_id IN (...)\<close>: a null \<^verbatim>\<open>mechanic_id\<close> is in no list.\<close>
  "mechanic_id_in mid ids = (case mid of None \<Rightarrow> False | Some i \<Rightarrow> i \<in> set ids)"

definition customers_can_view_own_bookings :: "uuid \<Rightarrow> booking \<Rightarrow> bool" where
  "customers_can_view_own_bookings uid b = (b_customer_id b = uid)"

definition mechanics_can_view_assigned_bookings :: "database \<Rightarrow> uuid \<Rightarrow> booking \<Rightarrow> bool" where
  "mechanics_can_view_assigned_bookings db uid b =
     mechanic_id_in (b_mechanic_id b) (own_mechanic_ids db uid)"

definition bookings_select_policy :: "database \<Rightarrow> uuid \<Rightarrow> booking \<Rightarrow> bool" where
  "bookings_select_policy db uid b =
     (customers_can_view_own_bookings uid b \<or> mechanics_can_view_assigned_bookings db uid b)"

definition customers_can_create_bookings :: "uuid \<Rightarrow> uuid option \<Rightarrow> bool" where
  \<comment> \<open>\<^verbatim>\<open>WITH CHECK (customer_id = auth.uid())\<close> on the row to insert, whose
      \<^verbatim>\<open>customer_id\<close> may still be null at this point.\<close>
  "customers_can_create_bookings uid cid = (cid = Some uid)"

definition customers_can_update_own_bookings :: "uuid \<Rightarrow> booking \<Rightarrow> bool" where
  \<comment> \<open>the same expression is the policy's \<^verbatim>\<open>USING\<close> and its \<^verbatim>\<open>WITH CHECK\<close>\<close>
  "customers_can_update_own_bookings uid b = (b_customer_id b = uid)"

definition mechanics_can_update_assigned_bookings :: "database \<Rightarrow> uuid \<Rightarrow> booking \<Rightarrow> bool" where
  \<comment> \<open>the same expression is the policy's \<^verbatim>\<open>USING\<close> and its \<^verbatim>\<open>WITH CHECK\<close>\<close>
  "mechanics_can_update_assigned_bookings db uid b =
     mechanic_id_in (b_mechanic_id b) (own_mechanic_ids db uid)"

definition bookings_update_using :: "database \<Rightarrow> uuid \<Rightarrow> booking \<Rightarrow> bool" where
  "bookings_update_using db uid b =
     (customers_can_update_own_bookings uid b \<or> mechanics_can_update_assigned_bookings db uid b)"

definition bookings_update_with_check :: "database \<Rightarrow> uuid \<Rightarrow> booking \<Rightarrow> bool" where
  "bookings_update_with_check db uid b =
     (customers_can_update_own_bookings uid b \<or> mechanics_can_update_assigned_bookings db uid b)"

definition customers_can_create_reviews :: "uuid \<Rightarrow> uuid option \<Rightarrow> bool" where
  \<comment> \<open>"Customers can create reviews for their bookings":
      \<^verbatim>\<open>WITH CHECK (customer_id = auth.uid())\<close>\<close>
  "customers_can_create_reviews uid cid = (cid = Some uid)"

subsection \<open>Reading bookings\<close>

definition select_bookings :: "database \<Rightarrow> uuid option \<Rightarrow> booking list" where
  \<comment> \<open>\<^verbatim>\<open>SELECT * FROM bookings\<close> issued by a principal: the rows that pass a
      \<^verbatim>\<open>SELECT\<close> policy.\<close>
  "select_bookings db auth =
     (case auth of
        None \<Rightarrow> []
      | Some uid \<Rightarrow> filter (bookings_select_policy db uid) (bookings db))"

subsection \<open>Inserting a booking\<close>

text \<open>
  The columns a client sends with an insert. \<open>None\<close> in \<open>bi_customer_id\<close>,
  \<open>bi_mechanic_id\<close>, \<open>bi_service_id\<close>, \<open>bi_vehicle_year\<close> and \<open>bi_total_price\<close>
  is a null (or absent) value; \<open>None\<close> in \<open>bi_notes\<close> and \<open>bi_status\<close> leaves the column to
  its default. The row's \<^verbatim>\<open>id\<close>, \<^verbatim>\<open>created_at\<close> and \<^verbatim>\<open>updated_at\<close> are
  the store's defaults.
\<close>

record booking_insert =
  bi_customer_id :: "uuid option"
  bi_mechanic_id :: "uuid option"
  bi_service_id :: "uuid option"
  bi_vehicle_make :: string
  bi_vehicle_model :: string
  bi_vehicle_year :: "int option"
  bi_location_address :: string
  bi_location_latitude :: rat
  bi_location_longitude :: rat
  bi_scheduled_time :: timestamptz
  bi_total_price :: "rat option"
  bi_notes :: "string option"
  bi_status :: "string option"

definition booking_row ::
  "env \<Rightarrow> booking_insert \<Rightarrow> uuid \<Rightarrow> uuid \<Rightarrow> int \<Rightarrow> rat \<Rightarrow> booking" where
  "booking_row e bi cid sid y p =
     \<lparr> b_id = gen_random_uuid e,
       b_customer_id = cid,
       b_mechanic_id = bi_mechanic_id bi,
       b_service_id = sid,
       b_status = (case bi_status bi of None \<Rightarrow> ''pending'' | Some s \<Rightarrow> s),
       b_vehicle_make = bi_vehicle_make bi,
       b_vehicle_model = bi_vehicle_model bi,
       b_vehicle_year = y,
       b_location_address = bi_location_address bi,
       b_location_latitude = bi_location_latitude bi,
       b_location_longitude = bi_location_longitude bi,
       b_scheduled_time = bi_scheduled_time bi,
       b_total_price = p,
       b_notes = Some (case bi_notes bi of None \<Rightarrow> [] | Some n \<Rightarrow> n),
       b_created_at = Some (now e),
       b_updated_at = Some (now e) \<rparr>"

definition mechanic_exists :: "database \<Rightarrow> uuid option \<Rightarrow> bool" where
  \<comment> \<open>the foreign key on a nullable column: a null references nothing\<close>
  "mechanic_exists db mid =
     (case mid of None \<Rightarrow> True | Some i \<Rightarrow> i \<in> set (map m_id (mechanics db)))"

definition check_new_booking :: "database \<Rightarrow> booking \<Rightarrow> error + database" where
  \<comment> \<open>the table's constraints on a new row, in the order the store checks them: the check
      constraint, the primary key, then the foreign keys in the order of their columns\<close>
  "check_new_booking db row =
     (if \<not> valid_status (b_status row) then Inl (ConstraintViolation ''valid_status'')
      else if b_id row \<in> set (map b_id (bookings db)) then Inl (ConstraintViolation ''bookings_pkey'')
      else if b_customer_id row \<notin> set (map p_id (profiles db))
        then Inl (NotFoundError ''bookings_customer_id_fkey'')
      else if \<not> mechanic_exists db (b_mechanic_id row)
        then Inl (NotFoundError ''bookings_mechanic_id_fkey'')
      else if b_service_id row \<notin> set (map s_id (services db))
        then Inl (NotFoundError ''bookings_service_id_fkey'')
      else Inr (db\<lparr>bookings := bookings db @ [row]\<rparr>))"

definition insert_booking :: "env \<Rightarrow> uuid option \<Rightarrow> booking_insert \<Rightarrow> database \<Rightarrow> error + database" where
  \<comment> \<open>\<^verbatim>\<open>INSERT INTO bookings\<close> by a principal: the value must fit its column type, then
      the \<^verbatim>\<open>WITH CHECK\<close> of "Customers can create bookings" (no policy, and so a
      refusal, for a principal who is not authenticated), then the not-null columns, then
      the constraints.\<close>
  "insert_booking e auth bi db =
     (if (case bi_vehicle_year bi of None \<Rightarrow> False | Some y \<Rightarrow> \<not> int4_range y)
        then Inl (ConstraintViolation ''integer out of range'')
      else (case auth of
          None \<Rightarrow> Inl AuthorizationError
        | Some uid \<Rightarrow>
            if \<not> customers_can_create_bookings uid (bi_customer_id bi) then Inl AuthorizationError
            else (case bi_customer_id bi of
                None \<Rightarrow> Inl (ConstraintViolation ''customer_id'')
              | Some cid \<Rightarrow>
                 (case bi_service_id bi of
                    None \<Rightarrow> Inl (ConstraintViolation ''service_id'')
                  | Some sid \<Rightarrow>
                     (case bi_vehicle_year bi of
                        None \<Rightarrow> Inl (ConstraintViolation ''vehicle_year'')
                      | Some y \<Rightarrow>
                         (case bi_total_price bi of
                            None \<Rightarrow> Inl (ConstraintViolation ''total_price'')
                          | Some p \<Rightarrow> check_new_booking db (booking_row e bi cid sid y p)))))))"

subsection \<open>Updating a booking\<close>

text \<open>
  The \<^verbatim>\<open>SET\<close> clause of \<^verbatim>\<open>UPDATE bookings SET ... WHERE id = bid\<close>: \<open>None\<close>
  leaves a column as it is, \<open>Some v\<close> assigns it (for the nullable \<^verbatim>\<open>mechanic_id\<close>
  \<^verbatim>\<open>notes\<close> and the timestamps, \<open>Some None\<close> assigns null). Every column of the
  table can be assigned, the primary key too.
\<close>

record booking_update =
  set_id :: "uuid option"
  set_customer_id :: "uuid option"
  set_mechanic_id :: "uuid option option"
  set_service_id :: "uuid option"
  set_status :: "string option"
  set_vehicle_make :: "string option"
  set_vehicle_model :: "string option"
  set_vehicle_year :: "int option"
  set_location_address :: "string option"
  set_location_latitude :: "rat option"
  set_location_longitude :: "rat option"
  set_scheduled_time :: "timestamptz option"
  set_total_price :: "rat option"
  set_notes :: "string option option"
  set_created_at :: "timestamptz option option"
  set_updated_at :: "timestamptz option option"

definition assign :: "'a option \<Rightarrow> 'a \<Rightarrow> 'a" where
  "assign v old = (case v of None \<Rightarrow> old | Some x \<Rightarrow> x)"

definition no_change :: booking_update where
  "no_change =
     \<lparr> set_id = None, set_customer_id = None, set_mechanic_id = None, set_service_id = None,
       set_status = None, set_vehicle_make = None, set_vehicle_model = None,
       set_vehicle_year = None, set_location_address = None, set_location_latitude = None,
       set_location_longitude = None, set_scheduled_time = None, set_total_price = None,
       set_notes = None, set_created_at = None, set_updated_at = None \<rparr>"

definition apply_update :: "booking_update \<Rightarrow> booking \<Rightarrow> booking" where
  "apply_update u b =
     \<lparr> b_id = assign (set_id u) (b_id b),
       b_customer_id = assign (set_customer_id u) (b_customer_id b),
       b_mechanic_id = assign (set_mechanic_id u) (b_mechanic_id b),
       b_service_id = assign (set_service_id u) (b_service_id b),
       b_status = assign (set_status u) (b_status b),
       b_vehicle_make = assign (set_vehicle_make u) (b_vehicle_make b),
       b_vehicle_model = assign (set_vehicle_model u) (b_vehicle_model b),
       b_vehicle_year = assign (set_vehicle_year u) (b_vehicle_year b),
       b_location_address = assign (set_location_address u) (b_location_address b),
       b_location_latitude = assign (set_location_latitude u) (b_location_latitude b),
       b_location_longitude = assign (set_location_longitude u) (b_location_longitude b),
       b_scheduled_time = assign (set_scheduled_time u) (b_scheduled_time b),
       b_total_price = assign (set_total_price u) (b_total_price b),
       b_notes = assign (set_notes u) (b_notes b),
       b_created_at = assign (set_created_at u) (b_created_at b),
       b_updated_at = assign (set_updated_at u) (b_updated_at b) \<rparr>"

definition check_updated_booking :: "database \<Rightarrow> uuid \<Rightarrow> booking \<Rightarrow> booking \<Rightarrow> error + booking" where
  \<comment> \<open>the new image of a row: the policies' \<^verbatim>\<open>WITH CHECK\<close>, the check constraint,
      the primary key when the id changed, and each foreign key whose column changed. A
      review that references the old id forbids the change of the id
      (\<^verbatim>\<open>reviews.booking_id\<close> has no \<^verbatim>\<open>ON UPDATE\<close> action).\<close>
  "check_updated_booking db uid old new =
     (if \<not> bookings_update_with_check db uid new then Inl AuthorizationError
      else if \<not> valid_status (b_status new) then Inl (ConstraintViolation ''valid_status'')
      else if b_id new \<noteq> b_id old \<and> b_id new \<in> set (map b_id (bookings db))
        then Inl (ConstraintViolation ''bookings_pkey'')
      else if b_id new \<noteq> b_id old \<and> b_id old \<in> set (map r_booking_id (reviews db))
        then Inl (NotFoundError ''reviews_booking_id_fkey'')
      else if b_customer_id new \<noteq> b_customer_id old
              \<and> b_customer_id new \<notin> set (map p_id (profiles db))
        then Inl (NotFoundError ''bookings_customer_id_fkey'')
      else if b_mechanic_id new \<noteq> b_mechanic_id old \<and> \<not> mechanic_exists db (b_mechanic_id new)
        then Inl (NotFoundError ''bookings_mechanic_id_fkey'')
      else if b_service_id new \<noteq> b_service_id old
              \<and> b_service_id new \<notin> set (map s_id (services db))
        then Inl (NotFoundError ''bookings_service_id_fkey'')
      else Inr new)"

fun update_booking_rows ::
  "database \<Rightarrow> uuid \<Rightarrow> uuid \<Rightarrow> booking_update \<Rightarrow> booking list \<Rightarrow> error + booking list" where
  "update_booking_rows db uid bid u [] = Inr []"
| "update_booking_rows db uid bid u (b # bs) =
     (if b_id b = bid \<and> bookings_update_using db uid b then
        (case check_updated_booking db uid b (apply_update u b) of
           Inl e \<Rightarrow> Inl e
         | Inr b' \<Rightarrow>
            (case update_booking_rows db uid bid u bs of
               Inl e \<Rightarrow> Inl e
             | Inr bs' \<Rightarrow> Inr (b' # bs')))
      else
        (case update_booking_rows db uid bid u bs of
           Inl e \<Rightarrow> Inl e
         | Inr bs' \<Rightarrow> Inr (b # bs')))"

definition update_booking :: "uuid option \<Rightarrow> uuid \<Rightarrow> booking_update \<Rightarrow> database \<Rightarrow> error + database" where
  \<comment> \<open>A row that fails the policies' \<^verbatim>\<open>USING\<close> is not a target of the statement: it
      is skipped without an error. A target whose new image fails is an error, and the
      statement changes nothing. An unauthenticated principal sees no row.\<close>
  "update_booking auth bid u db =
     (case auth of
        None \<Rightarrow> Inr db
      | Some uid \<Rightarrow>
          if (case set_vehicle_year u of None \<Rightarrow> False | Some y \<Rightarrow> \<not> int4_range y)
            then Inl (ConstraintViolation ''integer out of range'')
          else (case update_booking_rows db uid bid u (bookings db) of
              Inl e \<Rightarrow> Inl e
            | Inr bs \<Rightarrow> Inr (db\<lparr>bookings := bs\<rparr>)))"

definition rows_affected :: "database \<Rightarrow> uuid option \<Rightarrow> uuid \<Rightarrow> nat" where
  \<comment> \<open>the number of rows an \<^verbatim>\<open>UPDATE ... WHERE id = bid\<close> targets\<close>
  "rows_affected db auth bid =
     (case auth of
        None \<Rightarrow> 0
      | Some uid \<Rightarrow> length (filter (\<lambda>b. b_id b = bid \<and> bookings_update_using db uid b) (bookings db)))"

subsection \<open>Inserting a review, a profile, a mechanic\<close>

record review_insert =
  ri_booking_id :: "uuid option"
  ri_customer_id :: "uuid option"
  ri_mechanic_id :: "uuid option"
  ri_rating :: "int option"
  ri_comment :: "string option"

definition review_row :: "env \<Rightarrow> review_insert \<Rightarrow> uuid \<Rightarrow> uuid \<Rightarrow> uuid \<Rightarrow> int \<Rightarrow> review" where
  "review_row e ri bid cid mid n =
     \<lparr> r_id = gen_random_uuid e,
       r_booking_id = bid,
       r_customer_id = cid,
       r_mechanic_id = mid,
       r_rating = n,
       r_comment = Some (case ri_comment ri of None \<Rightarrow> [] | Some c \<Rightarrow> c),
       r_created_at = Some (now e) \<rparr>"

definition check_new_review :: "database \<Rightarrow> review \<Rightarrow> error + database" where
  "check_new_review db row =
     (if \<not> valid_rating (r_rating row) then Inl (ConstraintViolation ''valid_rating'')
      else if r_id row \<in> set (map r_id (reviews db)) then Inl (ConstraintViolation ''reviews_pkey'')
      else if r_booking_id row \<notin> set (map b_id (bookings db))
        then Inl (NotFoundError ''reviews_booking_id_fkey'')
      else if r_customer_id row \<notin> set (map p_id (profiles db))
        then Inl (NotFoundError ''reviews_customer_id_fkey'')
      else if r_mechanic_id row \<notin> set (map m_id (mechanics db))
        then Inl (NotFoundError ''reviews_mechanic_id_fkey'')
      else Inr (db\<lparr>reviews := reviews db @ [row]\<rparr>))"

definition insert_review :: "env \<Rightarrow> uuid option \<Rightarrow> review_insert \<Rightarrow> database \<Rightarrow> error + database" where
  "insert_review e auth ri db =
     (case auth of
        None \<Rightarrow> Inl AuthorizationError
      | Some uid \<Rightarrow>
          if (case ri_rating ri of None \<Rightarrow> False | Some n \<Rightarrow> \<not> int4_range n)
            then Inl (ConstraintViolation ''integer out of range'')
          else if \<not> customers_can_create_reviews uid (ri_customer_id ri) then Inl AuthorizationError
          else (case ri_booking_id ri of
              None \<Rightarrow> Inl (ConstraintViolation ''booking_id'')
            | Some bid \<Rightarrow>
               (case ri_customer_id ri of
                  None \<Rightarrow> Inl (ConstraintViolation ''customer_id'')
                | Some cid \<Rightarrow>
                   (case ri_mechanic_id ri of
                      None \<Rightarrow> Inl (ConstraintViolation ''mechanic_id'')
                    | Some mid \<Rightarrow>
                       (case ri_rating ri of
                          None \<Rightarrow> Inl (ConstraintViolation ''rating'')
                        | Some n \<Rightarrow> check_new_review db (review_row e ri bid cid mid n))))))"

definition insert_profile :: "uuid option \<Rightarrow> profile \<Rightarrow> database \<Rightarrow> error + database" where
  \<comment> \<open>"Users can insert own profile": \<^verbatim>\<open>WITH CHECK (auth.uid() = id)\<close>. The row
      references the principal's own entry of the identity provider's user table.\<close>
  "insert_profile auth row db =
     (case auth of
        None \<Rightarrow> Inl AuthorizationError
      | Some uid \<Rightarrow>
          if \<not> (uid = p_id row) then Inl AuthorizationError
          else if \<not> valid_user_type (p_user_type row) then Inl (ConstraintViolation ''valid_user_type'')
          else if p_id row \<in> set (map p_id (profiles db)) then Inl (ConstraintViolation ''profiles_pkey'')
          else Inr (db\<lparr>profiles := profiles db @ [row]\<rparr>))"

definition insert_mechanic :: "uuid option \<Rightarrow> mechanic \<Rightarrow> database \<Rightarrow> error + database" where
  \<comment> \<open>"Mechanics can insert own profile": \<^verbatim>\<open>WITH CHECK (user_id = auth.uid())\<close>\<close>
  "insert_mechanic auth row db =
     (case auth of
        None \<Rightarrow> Inl AuthorizationError
      | Some uid \<Rightarrow>
          if \<not> (m_user_id row = uid) then Inl AuthorizationError
          else if m_id row \<in> set (map m_id (mechanics db)) then Inl (ConstraintViolation ''mechanics_pkey'')
          else if m_user_id row \<notin> set (map p_id (profiles db))
            then Inl (NotFoundError ''mechanics_user_id_fkey'')
          else Inr (db\<lparr>mechanics := mechanics db @ [row]\<rparr>))"

subsection \<open>Deleting rows: the foreign keys' actions\<close>

text \<open>
  No policy grants \<^verbatim>\<open>DELETE\<close>; rows are deleted by the tables' owner, or through
  the cascade from the identity provider's user table into \<^verbatim>\<open>profiles\<close>. A deletion
  runs the \<^verbatim>\<open>ON DELETE\<close> action of every foreign key that references the row:
  \<^verbatim>\<open>bookings.mechanic_id\<close> is \<^verbatim>\<open>SET NULL\<close>, every other one that the deletions
  below meet is \<^verbatim>\<open>CASCADE\<close>.
\<close>

definition delete_booking :: "uuid \<Rightarrow> database \<Rightarrow> database" where
  \<comment> \<open>\<^verbatim>\<open>reviews.booking_id ... ON DELETE CASCADE\<close>\<close>
  "delete_booking bid db =
     db\<lparr> bookings := filter (\<lambda>b. b_id b \<noteq> bid) (bookings db),
         reviews := filter (\<lambda>r. r_booking_id r \<noteq> bid) (reviews db) \<rparr>"

definition delete_mechanic :: "uuid \<Rightarrow> database \<Rightarrow> database" where
  \<comment> \<open>\<^verbatim>\<open>bookings.mechanic_id ... ON DELETE SET NULL\<close>,
      \<^verbatim>\<open>reviews.mechanic_id ... ON DELETE CASCADE\<close>\<close>
  "delete_mechanic mid db =
     db\<lparr> mechanics := filter (\<lambda>m. m_id m \<noteq> mid) (mechanics db),
         bookings := map (\<lambda>b. if b_mechanic_id b = Some mid then b\<lparr>b_mechanic_id := None\<rparr> else b)
                       (bookings db),
         reviews := filter (\<lambda>r. r_mechanic_id r \<noteq> mid) (reviews db) \<rparr>"

definition delete_profile :: "uuid \<Rightarrow> database \<Rightarrow> database" where
  \<comment> \<open>\<^verbatim>\<open>mechanics.user_id\<close>, \<^verbatim>\<open>bookings.customer_id\<close> and
      \<^verbatim>\<open>reviews.customer_id\<close> are \<^verbatim>\<open>ON DELETE CASCADE\<close>; each mechanic and each
      booking deleted so runs its own actions.\<close>
  "delete_profile pid db =
     (let db1 = db\<lparr>profiles := filter (\<lambda>p. p_id p \<noteq> pid) (profiles db)\<rparr>;
          db2 = fold delete_mechanic
                  (map m_id (filter (\<lambda>m. m_user_id m = pid) (mechanics db1))) db1;
          db3 = fold delete_booking
                  (map b_id (filter (\<lambda>b. b_customer_id b = pid) (bookings db2))) db2
      in db3\<lparr>reviews := filter (\<lambda>r. r_customer_id r \<noteq> pid) (reviews db3)\<rparr>)"

subsection \<open>Changing a catalog price\<close>

definition update_service_base_price :: "uuid \<Rightarrow> rat \<Rightarrow> database \<Rightarrow> database" where
  \<comment> \<open>\<^verbatim>\<open>UPDATE services SET base_price = p WHERE id = sid\<close> by the table's owner (no
      policy grants it to a principal). No column of another table is computed from
      \<^verbatim>\<open>services.base_price\<close>, and no foreign key references it.\<close>
  "update_service_base_price sid p db =
     db\<lparr>services := map (\<lambda>s. if s_id s = sid then s\<lparr>s_base_price := p\<rparr> else s) (services db)\<rparr>"

subsection \<open>The seeded catalog\<close>

definition sample_services :: "(string \<times> string \<times> string \<times> rat \<times> int) list" where
  "sample_services =
     [(''Oil Change'', ''Complete oil and filter change service'', ''maintenance'', 4999 / 100, 30),
      (''Brake Inspection'', ''Comprehensive brake system inspection'', ''inspection'', 3999 / 100, 45),
      (''Battery Replacement'', ''Battery testing and replacement'', ''repair'', 12999 / 100, 30),
      (''Tire Rotation'', ''Four-wheel tire rotation and balance'', ''maintenance'', 5999 / 100, 45),
      (''Engine Diagnostic'', ''Full engine diagnostic scan'', ''inspection'', 8999 / 100, 60),
      (''Flat Tire Repair'', ''Emergency flat tire repair or replacement'', ''emergency'', 7999 / 100, 30),
      (''Jump Start'', ''Emergency jump start service'', ''emergency'', 3999 / 100, 15),
      (''Brake Pad Replacement'', ''Replace worn brake pads'', ''repair'', 19999 / 100, 90)]"

definition sample_service_row :: "timestamptz \<Rightarrow> uuid \<times> string \<times> string \<times> string \<times> rat \<times> int \<Rightarrow> service" where
  "sample_service_row t row =
     (case row of (i, n, d, c, p, m) \<Rightarrow>
        \<lparr> s_id = i, s_name = n, s_description = d, s_category = c, s_base_price = p,
          s_estimated_duration = m, s_created_at = Some t \<rparr>)"

definition initial_db :: "uuid list \<Rightarrow> timestamptz \<Rightarrow> database" where
  \<comment> \<open>the store after the migration: empty tables and the sample services, whose ids
      \<open>ids\<close> are the values \<^verbatim>\<open>gen_random_uuid()\<close> returned\<close>
  "initial_db ids t =
     \<lparr> profiles = [], mechanics = [],
       services = map (sample_service_row t) (zip ids sample_services),
       bookings = [], reviews = [] \<rparr>"

section \<open>The numbers of the client\<close>

text \<open>
  The client is JavaScript: a number is an IEEE double, \<^verbatim>\<open>NaN\<close> or an infinity.
  A finite number is represented by the decimal that JavaScript prints for it and that
  \<^verbatim>\<open>JSON.stringify\<close> sends, the shortest one that reads back as the same double;
  \<open>to_number\<close> is the number a decimal of a JSON text, or the integer that
  \<^verbatim>\<open>parseInt\<close> read, becomes: the nearest double, ties to the even significand.
\<close>

datatype number = NaN | Infinity | Minus_Infinity | Finite rat

definition pow :: "rat \<Rightarrow> int \<Rightarrow> rat" where
  "pow b e = (if 0 \<le> e then b ^ nat e else 1 / b ^ nat (- e))"

function digits :: "int \<Rightarrow> int \<Rightarrow> int" where
  \<comment> \<open>the number of digits of \<open>n\<close> in base \<open>b\<close>\<close>
  "digits b n = (if n < b \<or> b < 2 then 1 else 1 + digits b (n div b))"
  by pat_completeness auto
termination
  by (relation "measure (\<lambda>(b, n). nat n)") (auto intro: int_div_less_self)

declare digits.simps [simp del]

definition floor_log :: "int \<Rightarrow> rat \<Rightarrow> int" where
  \<comment> \<open>for \<open>0 < x\<close>, the \<open>e\<close> with \<open>b ^ e \<le> x < b ^ (e + 1)\<close>\<close>
  "floor_log b x =
     (if 1 \<le> x then digits b \<lfloor>x\<rfloor> - 1
      else - digits b (\<lceil>1 / x\<rceil> - 1))"

definition round_half_even :: "rat \<Rightarrow> int" where
  "round_half_even q =
     (let f = \<lfloor>q\<rfloor>; r = q - of_int f
      in if r < 1 / 2 then f else if 1 / 2 < r then f + 1 else if even f then f else f + 1)"

definition nearest_double :: "rat \<Rightarrow> rat" where
  \<comment> \<open>53 bits of significand, the exponent not below that of the subnormal numbers; a
      result of \<open>2 ^ 1024\<close> or more stands for an overflow\<close>
  "nearest_double x =
     (if x = 0 then 0
      else (let e = max (floor_log 2 \<bar>x\<bar>) (- 1022); q = pow 2 (e - 52)
            in of_int (round_half_even (x / q)) * q))"

fun shortest :: "rat \<Rightarrow> int \<Rightarrow> nat list \<Rightarrow> rat" where
  \<comment> \<open>for a double \<open>0 < a < 10 ^ n\<close>: with the first number of digits \<open>k\<close> of the list
      for which a decimal of \<open>k\<close> digits reads back as \<open>a\<close>, the one of them nearest to
      \<open>a\<close>\<close>
  "shortest a n [] = a"
| "shortest a n (k # ks) =
     (let sc = pow 10 (n - int k); s = \<lfloor>a / sc\<rfloor>; lo = of_int s * sc; hi = lo + sc;
          lo_first = (a - lo < hi - a \<or> (a - lo = hi - a \<and> even s));
          v1 = (if lo_first then lo else hi); v2 = (if lo_first then hi else lo)
      in if nearest_double v1 = a then v1
         else if nearest_double v2 = a then v2
         else shortest a n ks)"

definition shortest_decimal :: "rat \<Rightarrow> rat" where
  \<comment> \<open>seventeen digits tell every double from its neighbours\<close>
  "shortest_decimal d =
     (if d = 0 then 0
      else sgn d * shortest \<bar>d\<bar> (floor_log 10 \<bar>d\<bar> + 1) [1..<18])"

definition to_number :: "rat \<Rightarrow> number" where
  "to_number x =
     (let d = nearest_double x
      in if d = 0 then Finite 0
         else if 1024 \<le> floor_log 2 \<bar>d\<bar> then (if 0 < x then Infinity else Minus_Infinity)
         else Finite (shortest_decimal d))"

definition json_number :: "number \<Rightarrow> rat option" where
  \<comment> \<open>\<^verbatim>\<open>JSON.stringify\<close> writes \<^verbatim>\<open>NaN\<close> and the infinities as null\<close>
  "json_number x = (case x of Finite q \<Rightarrow> Some q | _ \<Rightarrow> None)"

definition json_integer :: "number \<Rightarrow> int option" where
  \<comment> \<open>the same for a number that goes to an \<^verbatim>\<open>integer\<close> column; the finite results of
      \<^verbatim>\<open>parseInt\<close>, for which it is used, are integers\<close>
  "json_integer x = (case x of Finite q \<Rightarrow> Some \<lfloor>q\<rfloor> | _ \<Rightarrow> None)"

section \<open>The booking creation screen\<close>

text \<open>
  \<^verbatim>\<open>app/booking/create.tsx\<close>. \<open>Service\<close> and \<open>Mechanic\<close> are the component's
  interfaces of that name, the fields prefixed; their values are the rows as the client
  reads them from the response, the numbers as JavaScript numbers. The component's state
  is a record; \<open>serviceId\<close> is the route parameter and \<open>profile\<close> the profile of the
  authentication context. \<open>mechanics_list\<close> is the state variable \<^verbatim>\<open>mechanics\<close> and
  \<open>notes_text\<close> the state variable \<^verbatim>\<open>notes\<close>. A string of the client is its text in
  UTF-8, as it is sent and stored.
\<close>

record Service =
  sv_id :: uuid
  sv_name :: string
  sv_description :: string
  sv_base_price :: number
  sv_estimated_duration :: number

record Mechanic =
  mc_id :: uuid
  mc_business_name :: string
  mc_rating :: "number option"
  mc_total_jobs :: "number option"
  mc_years_experience :: "number option"
  mc_is_available :: "bool option"

definition service_json :: "service \<Rightarrow> Service" where
  "service_json s =
     \<lparr> sv_id = s_id s, sv_name = s_name s, sv_description = s_description s,
       sv_base_price = to_number (s_base_price s),
       sv_estimated_duration = to_number (of_int (s_estimated_duration s)) \<rparr>"

definition mechanic_json :: "mechanic \<Rightarrow> Mechanic" where
  "mechanic_json m =
     \<lparr> mc_id = m_id m, mc_business_name = m_business_name m,
       mc_rating = map_option to_number (m_rating m),
       mc_total_jobs = map_option (\<lambda>n. to_number (of_int n)) (m_total_jobs m),
       mc_years_experience = map_option (\<lambda>n. to_number (of_int n)) (m_years_experience m),
       mc_is_available = m_is_available m \<rparr>"

record create_booking_screen =
  serviceId :: "uuid option"
  profile :: "profile option"
  service :: "Service option"
  mechanics_list :: "Mechanic list"
  selectedMechanic :: "uuid option"
  vehicleMake :: string
  vehicleModel :: string
  vehicleYear :: string
  locationAddress :: string
  notes_text :: string

definition initial_screen :: "uuid option \<Rightarrow> profile option \<Rightarrow> create_booking_screen" where
  \<comment> \<open>the initial values of the \<^verbatim>\<open>useState\<close> calls\<close>
  "initial_screen sid prof =
     \<lparr> serviceId = sid, profile = prof, service = None, mechanics_list = [],
       selectedMechanic = None, vehicleMake = [], vehicleModel = [], vehicleYear = [],
       locationAddress = [], notes_text = [] \<rparr>"

definition maybeSingle :: "'a list \<Rightarrow> 'a option" where
  \<comment> \<open>the row of a result of exactly one row; null for no row, and for several rows (an
      error whose data is null)\<close>
  "maybeSingle rows = (case rows of [x] \<Rightarrow> Some x | _ \<Rightarrow> None)"

definition loadData :: "database \<Rightarrow> uuid option \<Rightarrow> create_booking_screen \<Rightarrow> create_booking_screen" where
  \<comment> \<open>Both tables are readable by every authenticated principal ("Anyone can view
      services", "Anyone can view mechanics") and by no one else. A null service result
      leaves the state's service as it was; the mechanics result is a list, which is
      always stored.\<close>
  "loadData db auth st =
     (let visible_services = (case auth of None \<Rightarrow> [] | Some uid \<Rightarrow> services db);
          visible_mechanics = (case auth of None \<Rightarrow> [] | Some uid \<Rightarrow> mechanics db);
          serviceResult = maybeSingle (filter (\<lambda>s. Some (s_id s) = serviceId st) visible_services);
          mechanicsResult = filter (\<lambda>m. m_is_available m = Some True) visible_mechanics
      in st\<lparr> service := (case serviceResult of None \<Rightarrow> service st | Some s \<Rightarrow> Some (service_json s)),
             mechanics_list := map mechanic_json mechanicsResult \<rparr>)"

subsection \<open>\<^verbatim>\<open>parseInt\<close>\<close>

text \<open>
  \<^verbatim>\<open>parseInt(string)\<close> with no radix: leading white space is skipped, a sign is read,
  a \<^verbatim>\<open>0x\<close> prefix selects radix 16, and the longest prefix of digits is read as an
  integer, which becomes a number; with no digit the result is \<^verbatim>\<open>NaN\<close>. The white
  space is that of the language, line terminators included, each character by the bytes
  of its UTF-8 encoding: U+0009 to U+000D, U+0020, U+00A0, U+1680, U+2000 to U+200A,
  U+2028, U+2029, U+202F, U+205F, U+3000 and U+FEFF.
\<close>

definition white_space_length :: "nat list \<Rightarrow> nat" where
  \<comment> \<open>the number of bytes of the white space character that the bytes start with, 0 when
      they start with none\<close>
  "white_space_length bs =
     (if take 1 bs \<in> set [[0x09], [0x0A], [0x0B], [0x0C], [0x0D], [0x20]] then 1
      else if take 2 bs = [0xC2, 0xA0] then 2
      else if take 3 bs \<in> set [[0xE1, 0x9A, 0x80],
                [0xE2, 0x80, 0x80], [0xE2, 0x80, 0x81], [0xE2, 0x80, 0x82], [0xE2, 0x80, 0x83],
                [0xE2, 0x80, 0x84], [0xE2, 0x80, 0x85], [0xE2, 0x80, 0x86], [0xE2, 0x80, 0x87],
                [0xE2, 0x80, 0x88], [0xE2, 0x80, 0x89], [0xE2, 0x80, 0x8A],
                [0xE2, 0x80, 0xA8], [0xE2, 0x80, 0xA9], [0xE2, 0x80, 0xAF],
                [0xE2, 0x81, 0x9F], [0xE3, 0x80, 0x80], [0xEF, 0xBB, 0xBF]] then 3
      else 0)"

function skip_white_space :: "nat list \<Rightarrow> nat list" where
  "skip_white_space bs =
     (if white_space_length bs = 0 then bs
      else skip_white_space (drop (white_space_length bs) bs))"
  by pat_completeness auto
termination
proof (relation "measure length")
  show "wf (measure length)"
    by simp
next
  fix bs :: "nat list"
  assume "white_space_length bs \<noteq> 0"
  moreover have "white_space_length [] = 0"
    by (simp add: white_space_length_def)
  ultimately have "bs \<noteq> []"
    by auto
  with \<open>white_space_length bs \<noteq> 0\<close>
  show "(drop (white_space_length bs) bs, bs) \<in> measure length"
    by simp
qed

declare skip_white_space.simps [simp del]

definition digit_value :: "nat \<Rightarrow> nat option" where
  "digit_value n =
     (if 48 \<le> n \<and> n \<le> 57 then Some (n - 48)
      else if 97 \<le> n \<and> n \<le> 122 then Some (n - 87)
      else if 65 \<le> n \<and> n \<le> 90 then Some (n - 55)
      else None)"

definition radix_digit :: "nat \<Rightarrow> nat \<Rightarrow> bool" where
  "radix_digit R c = (case digit_value c of None \<Rightarrow> False | Some d \<Rightarrow> d < R)"

definition parseInt :: "string \<Rightarrow> number" where
  \<comment> \<open>the bytes 45 and 43 are the signs, 48, 120 and 88 the characters of the prefixes
      \<^verbatim>\<open>0x\<close> and \<^verbatim>\<open>0X\<close>\<close>
  "parseInt inputString =
     (let S = skip_white_space (map of_char inputString);
          sign = (if take 1 S = [45] then - 1 else 1 :: int);
          S1 = (if take 1 S = [43] \<or> take 1 S = [45] then drop 1 S else S);
          hex = (take 2 S1 = [48, 120] \<or> take 2 S1 = [48, 88]);
          R = (if hex then 16 else 10);
          S2 = (if hex then drop 2 S1 else S1);
          Z = takeWhile (radix_digit R) S2
      in if Z = [] then NaN
         else to_number (of_int (sign * int (foldl (\<lambda>a c. a * R + (case digit_value c of None \<Rightarrow> 0 | Some d \<Rightarrow> d)) 0 Z))))"

subsection \<open>\<^verbatim>\<open>handleSubmit\<close>\<close>

definition or_zero :: "number option \<Rightarrow> number" where
  \<comment> \<open>\<^verbatim>\<open>service?.base_price || 0\<close>: \<open>None\<close> is the undefined price of an absent
      service; undefined, \<^verbatim>\<open>NaN\<close> and zero are falsy\<close>
  "or_zero p =
     (case p of
        None \<Rightarrow> Finite 0
      | Some x \<Rightarrow> if x = NaN \<or> x = Finite 0 then Finite 0 else x)"

definition handleSubmit ::
  "env \<Rightarrow> timestamptz \<Rightarrow> create_booking_screen \<Rightarrow> uuid option \<Rightarrow> database \<Rightarrow> error + database" where
  \<comment> \<open>\<open>date_now\<close> is the client's \<^verbatim>\<open>new Date()\<close>, \<open>auth\<close> the principal of the
      client's session. An empty string and a null are the falsy values of the guard.\<close>
  "handleSubmit e date_now st auth db =
     (if vehicleMake st = [] \<or> vehicleModel st = [] \<or> vehicleYear st = []
         \<or> locationAddress st = [] \<or> selectedMechanic st = None
      then Inl (ValidationError ''Please fill in all required fields and select a mechanic'')
      else insert_booking e auth
        \<lparr> bi_customer_id = map_option p_id (profile st),
          bi_mechanic_id = selectedMechanic st,
          bi_service_id = serviceId st,
          bi_vehicle_make = vehicleMake st,
          bi_vehicle_model = vehicleModel st,
          bi_vehicle_year = json_integer (parseInt (vehicleYear st)),
          bi_location_address = locationAddress st,
          bi_location_latitude = 0,
          bi_location_longitude = 0,
          bi_scheduled_time = date_now,
          bi_total_price = json_number (or_zero (map_option sv_base_price (service st))),
          bi_notes = Some (notes_text st),
          bi_status = Some ''pending'' \<rparr> db)"

section \<open>The states the store can reach\<close>

inductive reachable :: "database \<Rightarrow> bool" where
  migrated: "length ids = length sample_services \<Longrightarrow> distinct ids \<Longrightarrow> reachable (initial_db ids t)"
| profile_inserted: "reachable db \<Longrightarrow> insert_profile auth p db = Inr db' \<Longrightarrow> reachable db'"
| mechanic_inserted: "reachable db \<Longrightarrow> insert_mechanic auth m db = Inr db' \<Longrightarrow> reachable db'"
| booking_inserted: "reachable db \<Longrightarrow> insert_booking e auth bi db = Inr db' \<Longrightarrow> reachable db'"
| booking_updated: "reachable db \<Longrightarrow> update_booking auth bid u db = Inr db' \<Longrightarrow> reachable db'"
| review_inserted: "reachable db \<Longrightarrow> insert_review e auth ri db = Inr db' \<Longrightarrow> reachable db'"
| booking_deleted: "reachable db \<Longrightarrow> reachable (delete_booking bid db)"
| mechanic_deleted: "reachable db \<Longrightarrow> reachable (delete_mechanic mid db)"
| profile_deleted: "reachable db \<Longrightarrow> reachable (delete_profile pid db)"
| price_changed: "reachable db \<Longrightarrow> reachable (update_service_base_price sid p db)"

section \<open>Concrete stores and screens\<close>

text \<open>
  A small store on which the theorems below are instantiated: the migrated catalog, two
  customers (1 and 2), two mechanic users (3 and 4) with their mechanic rows (10 and 11).
\<close>

definition example_profile :: "uuid \<Rightarrow> string \<Rightarrow> profile" where
  "example_profile i t =
     \<lparr> p_id = i, p_email = ''user@example.org'', p_full_name = ''User'', p_phone = None,
       p_user_type = t, p_created_at = Some 0, p_updated_at = Some 0 \<rparr>"

definition example_mechanic :: "uuid \<Rightarrow> uuid \<Rightarrow> mechanic" where
  "example_mechanic i u =
     \<lparr> m_id = i, m_user_id = u, m_business_name = ''Garage'', m_certifications = Some [],
       m_years_experience = Some 0, m_service_radius = Some 10, m_rating = Some 0,
       m_total_jobs = Some 0, m_is_available = Some True, m_current_latitude = None,
       m_current_longitude = None, m_created_at = Some 0 \<rparr>"

definition example_db :: database where
  "example_db =
     (initial_db [101, 102, 103, 104, 105, 106, 107, 108] 0)
       \<lparr> profiles := [example_profile 1 ''customer'', example_profile 2 ''customer'',
                      example_profile 3 ''mechanic'', example_profile 4 ''mechanic''],
         mechanics := [example_mechanic 10 3, example_mechanic 11 4] \<rparr>"

definition example_env :: env where
  "example_env = \<lparr> gen_random_uuid = 1000, now = 5 \<rparr>"

definition example_form :: create_booking_screen where
  \<comment> \<open>customer 1 opened the screen for the service 101 ("Oil Change") and filled it in\<close>
  "example_form =
     (loadData example_db (Some 1) (initial_screen (Some 101) (Some (example_profile 1 ''customer''))))
       \<lparr> selectedMechanic := Some 10, vehicleMake := ''Toyota'', vehicleModel := ''Camry'',
         vehicleYear := ''2020'', locationAddress := ''1 Main Street'' \<rparr>"

definition example_booking :: "uuid \<Rightarrow> uuid \<Rightarrow> uuid option \<Rightarrow> string \<Rightarrow> booking" where
  "example_booking i c m st =
     \<lparr> b_id = i, b_customer_id = c, b_mechanic_id = m, b_service_id = 101, b_status = st,
       b_vehicle_make = ''Toyota'', b_vehicle_model = ''Camry'', b_vehicle_year = 2020,
       b_location_address = ''1 Main Street'', b_location_latitude = 0,
       b_location_longitude = 0, b_scheduled_time = 4, b_total_price = 4999 / 100,
       b_notes = Some [], b_created_at = Some 5, b_updated_at = Some 5 \<rparr>"

definition example_review :: "uuid \<Rightarrow> uuid \<Rightarrow> uuid \<Rightarrow> uuid \<Rightarrow> int \<Rightarrow> review" where
  "example_review i b c m n =
     \<lparr> r_id = i, r_booking_id = b, r_customer_id = c, r_mechanic_id = m, r_rating = n,
       r_comment = Some [], r_created_at = Some 5 \<rparr>"

definition ledger_db :: database where
  \<comment> \<open>three bookings: customer 1 with mechanic 10, customer 2 with no mechanic, customer 2
      with mechanic 11; and one review by customer 2\<close>
  "ledger_db =
     example_db
       \<lparr> bookings := [example_booking 1000 1 (Some 10) ''pending'',
                      example_booking 1001 2 None ''pending'',
                      example_booking 1002 2 (Some 11) ''accepted''],
         reviews := [example_review 2000 1002 2 11 4] \<rparr>"

definition store_with :: "profile list \<Rightarrow> mechanic list \<Rightarrow> booking list \<Rightarrow> review list \<Rightarrow> database" where
  \<comment> \<open>the migrated catalog with the given rows in the other tables\<close>
  "store_with ps ms bs rs =
     (initial_db [101, 102, 103, 104, 105, 106, 107, 108] 0)
       \<lparr> profiles := ps, mechanics := ms, bookings := bs, reviews := rs \<rparr>"

definition example_payload :: "uuid \<Rightarrow> uuid option \<Rightarrow> booking_insert" where
  "example_payload c m =
     \<lparr> bi_customer_id = Some c, bi_mechanic_id = m, bi_service_id = Some 101,
       bi_vehicle_make = ''Toyota'', bi_vehicle_model = ''Camry'', bi_vehicle_year = Some 2020,
       bi_location_address = ''1 Main Street'', bi_location_latitude = 0,
       bi_location_longitude = 0, bi_scheduled_time = 4, bi_total_price = Some (4999 / 100),
       bi_notes = Some [], bi_status = Some ''pending'' \<rparr>"

definition example_rating :: "int \<Rightarrow> review_insert" where
  \<comment> \<open>customer 1 rates the booking 1000 and its mechanic 10\<close>
  "example_rating n =
     \<lparr> ri_booking_id = Some 1000, ri_customer_id = Some 1, ri_mechanic_id = Some 10,
       ri_rating = Some n, ri_comment = Some [] \<rparr>"

section \<open>Notions the statements use\<close>

definition unassign :: "uuid list \<Rightarrow> booking \<Rightarrow> booking" where
  \<comment> \<open>a booking row after the mechanics \<open>ids\<close> are deleted\<close>
  "unassign ids b = (if mechanic_id_in (b_mechanic_id b) ids then b\<lparr>b_mechanic_id := None\<rparr> else b)"

definition mechanics_of :: "database \<Rightarrow> uuid \<Rightarrow> uuid list" where
  \<comment> \<open>the ids of the mechanic rows of a profile\<close>
  "mechanics_of db pid = map m_id (filter (\<lambda>m. m_user_id m = pid) (mechanics db))"

definition bookings_of :: "database \<Rightarrow> uuid \<Rightarrow> uuid list" where
  \<comment> \<open>the ids of the bookings of a customer\<close>
  "bookings_of db pid = map b_id (filter (\<lambda>b. b_customer_id b = pid) (bookings db))"

section \<open>Who reads which booking\<close>

lemma mechanic_id_in_iff:
  "mechanic_id_in (b_mechanic_id b) (own_mechanic_ids db uid) \<longleftrightarrow>
     (\<exists>m \<in> set (mechanics db). b_mechanic_id b = Some (m_id m) \<and> m_user_id m = uid)"
  by (cases "b_mechanic_id b") (auto simp: mechanic_id_in_def own_mechanic_ids_def)

text \<open>
  Claim C1. A principal \<open>P\<close> who reads the bookings receives exactly the rows whose
  \<^verbatim>\<open>customer_id\<close> is \<open>P\<close> or whose \<^verbatim>\<open>mechanic_id\<close> is the id of a mechanic
  row with \<^verbatim>\<open>user_id\<close> \<open>P\<close>, in the table's order. In particular a principal \<open>A\<close>
  does not read a booking of another customer \<open>B\<close> that has no mechanic.
\<close>

theorem bookings_read_exact:
  "select_bookings db (Some P) =
     filter (\<lambda>b. b_customer_id b = P
                \<or> (\<exists>m \<in> set (mechanics db). b_mechanic_id b = Some (m_id m) \<and> m_user_id m = P))
       (bookings db)
   \<and> (A \<noteq> B \<and> b_customer_id b = B \<and> b_mechanic_id b = None
        \<longrightarrow> b \<notin> set (select_bookings db (Some A)))"
proof
  show "select_bookings db (Some P) =
     filter (\<lambda>b. b_customer_id b = P
                \<or> (\<exists>m \<in> set (mechanics db). b_mechanic_id b = Some (m_id m) \<and> m_user_id m = P))
       (bookings db)"
  proof -
    have "bookings_select_policy db P =
      (\<lambda>b. b_customer_id b = P
          \<or> (\<exists>m \<in> set (mechanics db). b_mechanic_id b = Some (m_id m) \<and> m_user_id m = P))"
      by (simp add: fun_eq_iff bookings_select_policy_def customers_can_view_own_bookings_def
          mechanics_can_view_assigned_bookings_def mechanic_id_in_iff)
    then show ?thesis
      by (simp add: select_bookings_def)
  qed
next
  show "A \<noteq> B \<and> b_customer_id b = B \<and> b_mechanic_id b = None
        \<longrightarrow> b \<notin> set (select_bookings db (Some A))"
    by (simp add: select_bookings_def bookings_select_policy_def
        customers_can_view_own_bookings_def mechanics_can_view_assigned_bookings_def
        mechanic_id_in_def)
qed

text \<open>
  On the example ledger: the mechanic user 3 reads the booking assigned to the mechanic
  row 10, customer 2 reads both bookings of theirs, and customer 1 does not read the
  unassigned booking of customer 2.
\<close>

theorem bookings_read_exact_witness:
  "select_bookings ledger_db (Some 3) = [example_booking 1000 1 (Some 10) ''pending'']
   \<and> select_bookings ledger_db (Some 2) =
        [example_booking 1001 2 None ''pending'', example_booking 1002 2 (Some 11) ''accepted'']
   \<and> (1::nat) \<noteq> 2 \<and> b_customer_id (example_booking 1001 2 None ''pending'') = 2
   \<and> b_mechanic_id (example_booking 1001 2 None ''pending'') = None
   \<and> example_booking 1001 2 None ''pending'' \<notin> set (select_bookings ledger_db (Some 1))"
  using bookings_read_exact [of ledger_db 3 1 2 "example_booking 1001 2 None ''pending''"]
    bookings_read_exact [of ledger_db 2]
  by (simp add: ledger_db_def example_db_def example_booking_def example_mechanic_def)

section \<open>The operations, table by table\<close>

subsection \<open>What each operation does to the tables\<close>

lemma check_new_booking_Inr:
  "check_new_booking db row = Inr db' \<Longrightarrow>
     db' = db\<lparr>bookings := bookings db @ [row]\<rparr> \<and> valid_status (b_status row)
     \<and> b_id row \<notin> set (map b_id (bookings db))
     \<and> b_customer_id row \<in> set (map p_id (profiles db))
     \<and> mechanic_exists db (b_mechanic_id row)
     \<and> b_service_id row \<in> set (map s_id (services db))"
  by (simp add: check_new_booking_def split: if_splits)

lemma insert_booking_Inr:
  assumes "insert_booking e auth bi db = Inr db'"
  obtains uid sid y p where
    "auth = Some uid" "bi_customer_id bi = Some uid" "bi_service_id bi = Some sid"
    "bi_vehicle_year bi = Some y" "int4_range y" "bi_total_price bi = Some p"
    "check_new_booking db (booking_row e bi uid sid y p) = Inr db'"
  using assms
  by (auto simp: insert_booking_def customers_can_create_bookings_def
      split: option.splits if_splits)

lemma check_updated_booking_Inr:
  "check_updated_booking db uid old new = Inr b' \<Longrightarrow>
     b' = new \<and> bookings_update_with_check db uid new \<and> valid_status (b_status new)
     \<and> (b_id new = b_id old \<or> b_id new \<notin> set (map b_id (bookings db)))"
  by (simp add: check_updated_booking_def split: if_splits)

lemma update_rows_untouched:
  "\<forall>x \<in> set bs. b_id x \<noteq> bid \<Longrightarrow> update_booking_rows db uid bid u bs = Inr bs"
  by (induction bs) simp_all

text \<open>
  An update may assign the primary key. The ids stay distinct: at most one row has the id
  that the statement selects, and its new id is the old one or one that no row has.
\<close>

lemma update_booking_rows_distinct:
  assumes "update_booking_rows db uid bid u bs = Inr bs'"
    and "distinct (map b_id bs)"
    and "\<forall>x \<in> set bs. b_id x \<in> set (map b_id (bookings db))"
  shows "distinct (map b_id bs')
       \<and> (\<forall>y \<in> set bs'. (\<exists>x \<in> set bs. b_id y = b_id x)
                            \<or> b_id y \<notin> set (map b_id (bookings db)))"
  using assms
proof (induction bs arbitrary: bs')
  case Nil
  then show ?case by simp
next
  case (Cons a bs)
  let ?I = "set (map b_id (bookings db))"
  from Cons.prems(2) have d: "distinct (map b_id bs)"
    by simp
  from Cons.prems(2) have fresh: "\<forall>x \<in> set bs. b_id x \<noteq> b_id a"
    by (metis distinct.simps(2) imageI list.simps(9) list.set_map)
  from Cons.prems(3) have sub: "\<forall>x \<in> set bs. b_id x \<in> ?I" and a_in: "b_id a \<in> ?I"
    by simp_all
  show ?case
  proof (cases "b_id a = bid \<and> bookings_update_using db uid a")
    case True
    with fresh have "\<forall>x \<in> set bs. b_id x \<noteq> bid"
      by simp
    then have "update_booking_rows db uid bid u bs = Inr bs"
      by (rule update_rows_untouched)
    with True Cons.prems(1) obtain a' where
      a': "check_updated_booking db uid a (apply_update u a) = Inr a'" and bs': "bs' = a' # bs"
      by (auto split: sum.splits)
    from a' have new: "b_id a' = b_id a \<or> b_id a' \<notin> ?I"
      by (auto dest: check_updated_booking_Inr)
    with fresh sub have "\<forall>x \<in> set bs. b_id x \<noteq> b_id a'"
      by metis
    then have "b_id a' \<notin> set (map b_id bs)"
      by force
    with d bs' have "distinct (map b_id bs')"
      by simp
    moreover from new bs' have "\<forall>y \<in> set bs'. (\<exists>x \<in> set (a # bs). b_id y = b_id x) \<or> b_id y \<notin> ?I"
      by auto
    ultimately show ?thesis
      by blast
  next
    case False
    with Cons.prems(1) obtain bs'' where
      r: "update_booking_rows db uid bid u bs = Inr bs''" and bs': "bs' = a # bs''"
      by (auto split: sum.splits)
    from Cons.IH [OF r d sub]
    have d'': "distinct (map b_id bs'')"
      and old: "\<forall>y \<in> set bs''. (\<exists>x \<in> set bs. b_id y = b_id x) \<or> b_id y \<notin> ?I"
      by simp_all
    from old fresh a_in have "\<forall>y \<in> set bs''. b_id y \<noteq> b_id a"
      by metis
    then have "b_id a \<notin> set (map b_id bs'')"
      by force
    with d'' bs' have "distinct (map b_id bs')"
      by simp
    moreover from old bs' have "\<forall>y \<in> set bs'. (\<exists>x \<in> set (a # bs). b_id y = b_id x) \<or> b_id y \<notin> ?I"
      by auto
    ultimately show ?thesis
      by blast
  qed
qed

lemma update_booking_rows_status:
  "update_booking_rows db uid bid u bs = Inr bs' \<Longrightarrow>
     \<forall>b \<in> set bs. valid_status (b_status b) \<Longrightarrow> \<forall>b \<in> set bs'. valid_status (b_status b)"
proof (induction bs arbitrary: bs')
  case Nil
  then show ?case by simp
next
  case (Cons b bs)
  then show ?case
    by (auto split: if_splits sum.splits dest: check_updated_booking_Inr)
qed

lemma update_booking_Inr:
  "update_booking auth bid u db = Inr db' \<Longrightarrow>
     db' = db \<or> (\<exists>uid bs. auth = Some uid \<and> db' = db\<lparr>bookings := bs\<rparr>
                    \<and> update_booking_rows db uid bid u (bookings db) = Inr bs)"
  by (auto simp: update_booking_def split: option.splits if_splits sum.splits)

lemma check_new_review_Inr:
  "check_new_review db row = Inr db' \<Longrightarrow>
     db' = db\<lparr>reviews := reviews db @ [row]\<rparr> \<and> valid_rating (r_rating row)
     \<and> r_id row \<notin> set (map r_id (reviews db))"
  by (simp add: check_new_review_def split: if_splits)

lemma insert_review_Inr:
  assumes "insert_review e auth ri db = Inr db'"
  obtains uid bid mid n where
    "auth = Some uid" "ri_customer_id ri = Some uid" "ri_booking_id ri = Some bid"
    "ri_mechanic_id ri = Some mid" "ri_rating ri = Some n"
    "check_new_review db (review_row e ri bid uid mid n) = Inr db'"
  using assms
  by (auto simp: insert_review_def customers_can_create_reviews_def
      split: option.splits if_splits)

lemma insert_profile_Inr:
  "insert_profile auth p db = Inr db' \<Longrightarrow> db' = db\<lparr>profiles := profiles db @ [p]\<rparr>"
  by (simp add: insert_profile_def split: option.splits if_splits)

lemma insert_mechanic_Inr:
  "insert_mechanic auth m db = Inr db' \<Longrightarrow> db' = db\<lparr>mechanics := mechanics db @ [m]\<rparr>"
  by (simp add: insert_mechanic_def split: option.splits if_splits)

lemma fold_delete_mechanic:
  "fold delete_mechanic ids db =
     db\<lparr> mechanics := filter (\<lambda>m. m_id m \<notin> set ids) (mechanics db),
         bookings := map (unassign ids) (bookings db),
         reviews := filter (\<lambda>r. r_mechanic_id r \<notin> set ids) (reviews db) \<rparr>"
proof (induction ids arbitrary: db)
  case Nil
  have "unassign [] = (\<lambda>b. b)"
    by (simp add: fun_eq_iff unassign_def mechanic_id_in_def split: option.splits)
  then show ?case by simp
next
  case (Cons i ids)
  have u: "unassign ids (if b_mechanic_id b = Some i then b\<lparr>b_mechanic_id := None\<rparr> else b)
        = unassign (i # ids) b" for b
    by (cases "b_mechanic_id b") (auto simp: unassign_def mechanic_id_in_def)
  have f1: "filter (\<lambda>m. m_id m \<notin> set ids) (filter (\<lambda>m. m_id m \<noteq> i) ms)
        = filter (\<lambda>m. m_id m \<notin> set (i # ids)) ms" for ms :: "mechanic list"
    by (induction ms) auto
  have f2: "filter (\<lambda>r. r_mechanic_id r \<notin> set ids) (filter (\<lambda>r. r_mechanic_id r \<noteq> i) rs)
        = filter (\<lambda>r. r_mechanic_id r \<notin> set (i # ids)) rs" for rs :: "review list"
    by (induction rs) auto
  show ?case
    by (simp only: fold_simps Cons.IH) (simp add: delete_mechanic_def u f1 f2 comp_def)
qed

lemma fold_delete_booking:
  "fold delete_booking ids db =
     db\<lparr> bookings := filter (\<lambda>b. b_id b \<notin> set ids) (bookings db),
         reviews := filter (\<lambda>r. r_booking_id r \<notin> set ids) (reviews db) \<rparr>"
proof (induction ids arbitrary: db)
  case Nil
  then show ?case by simp
next
  case (Cons i ids)
  have f1: "filter (\<lambda>b. b_id b \<notin> set ids) (filter (\<lambda>b. b_id b \<noteq> i) bs)
        = filter (\<lambda>b. b_id b \<notin> set (i # ids)) bs" for bs :: "booking list"
    by (induction bs) auto
  have f2: "filter (\<lambda>r. r_booking_id r \<notin> set ids) (filter (\<lambda>r. r_booking_id r \<noteq> i) rs)
        = filter (\<lambda>r. r_booking_id r \<notin> set (i # ids)) rs" for rs :: "review list"
    by (induction rs) auto
  show ?case
    by (simp only: fold_simps Cons.IH) (simp add: delete_booking_def f1 f2)
qed

lemma unassign_fields [simp]:
  "b_id (unassign ids b) = b_id b" "b_customer_id (unassign ids b) = b_customer_id b"
  "b_status (unassign ids b) = b_status b"
  by (simp_all add: unassign_def)

lemma delete_profile_tables:
  "profiles (delete_profile pid db) = filter (\<lambda>p. p_id p \<noteq> pid) (profiles db)"
  "mechanics (delete_profile pid db) =
     filter (\<lambda>m. m_id m \<notin> set (mechanics_of db pid)) (mechanics db)"
  "bookings (delete_profile pid db) =
     filter (\<lambda>b. b_id b \<notin> set (bookings_of db pid)) (map (unassign (mechanics_of db pid)) (bookings db))"
  "reviews (delete_profile pid db) =
     filter (\<lambda>r. r_customer_id r \<noteq> pid)
       (filter (\<lambda>r. r_booking_id r \<notin> set (bookings_of db pid))
          (filter (\<lambda>r. r_mechanic_id r \<notin> set (mechanics_of db pid)) (reviews db)))"
  "services (delete_profile pid db) = services db"
proof -
  have ids: "map b_id (filter (\<lambda>b. b_customer_id b = pid) (map (unassign ms) bs))
      = map b_id (filter (\<lambda>b. b_customer_id b = pid) bs)" for ms and bs :: "booking list"
    by (induction bs) auto
  have ids': "b_id ` {x \<in> unassign ms ` set bs. b_customer_id x = pid}
      = b_id ` {x \<in> set bs. b_customer_id x = pid}" for ms and bs :: "booking list"
    using arg_cong [OF ids [of ms bs], of set] by (simp add: image_image)
  show "profiles (delete_profile pid db) = filter (\<lambda>p. p_id p \<noteq> pid) (profiles db)"
    by (simp add: delete_profile_def Let_def fold_delete_mechanic fold_delete_booking)
  show "mechanics (delete_profile pid db) =
     filter (\<lambda>m. m_id m \<notin> set (mechanics_of db pid)) (mechanics db)"
    by (simp add: delete_profile_def Let_def fold_delete_mechanic fold_delete_booking mechanics_of_def)
  show "bookings (delete_profile pid db) =
     filter (\<lambda>b. b_id b \<notin> set (bookings_of db pid)) (map (unassign (mechanics_of db pid)) (bookings db))"
    by (simp add: delete_profile_def Let_def fold_delete_mechanic fold_delete_booking
        mechanics_of_def bookings_of_def ids')
  show "reviews (delete_profile pid db) =
     filter (\<lambda>r. r_customer_id r \<noteq> pid)
       (filter (\<lambda>r. r_booking_id r \<notin> set (bookings_of db pid))
          (filter (\<lambda>r. r_mechanic_id r \<notin> set (mechanics_of db pid)) (reviews db)))"
    by (simp add: delete_profile_def Let_def fold_delete_mechanic fold_delete_booking
        mechanics_of_def bookings_of_def ids')
  show "services (delete_profile pid db) = services db"
    by (simp add: delete_profile_def Let_def fold_delete_mechanic fold_delete_booking)
qed

section \<open>Invariants of the reachable states\<close>

lemma distinct_ids_filter_map:
  assumes "distinct (map b_id bs)" "\<And>b. b_id (f b) = b_id b"
  shows "distinct (map b_id (filter P (map f bs)))"
proof -
  have "map b_id (map f bs) = map b_id bs"
    by (induction bs) (simp_all add: assms(2))
  with assms(1) have "distinct (map b_id (map f bs))"
    by (simp only:)
  then show ?thesis
    by (rule distinct_map_filter)
qed

lemma reachable_bookings:
  "reachable db \<Longrightarrow>
     (\<forall>b \<in> set (bookings db). valid_status (b_status b)) \<and> distinct (map b_id (bookings db))"
proof (induction rule: reachable.induct)
  case (migrated ids t)
  then show ?case by (simp add: initial_db_def)
next
  case (profile_inserted db auth p db')
  then show ?case by (auto dest: insert_profile_Inr)
next
  case (mechanic_inserted db auth m db')
  then show ?case by (auto dest: insert_mechanic_Inr)
next
  case (booking_inserted db e auth bi db')
  from booking_inserted.hyps(2) obtain row where
    "check_new_booking db row = Inr db'"
    by (rule insert_booking_Inr)
  with booking_inserted.IH show ?case
    by (auto dest!: check_new_booking_Inr)
next
  case (booking_updated db auth bid u db')
  from booking_updated.hyps(2) show ?case
  proof (rule update_booking_Inr [THEN disjE])
    assume "db' = db"
    with booking_updated.IH show ?thesis by simp
  next
    assume "\<exists>uid bs. auth = Some uid \<and> db' = db\<lparr>bookings := bs\<rparr>
                    \<and> update_booking_rows db uid bid u (bookings db) = Inr bs"
    then obtain uid bs where db': "db' = db\<lparr>bookings := bs\<rparr>"
      and rows: "update_booking_rows db uid bid u (bookings db) = Inr bs"
      by blast
    from rows booking_updated.IH have "\<forall>b \<in> set bs. valid_status (b_status b)"
      by (blast dest: update_booking_rows_status)
    moreover from rows booking_updated.IH have "distinct (map b_id bs)"
      by (simp add: update_booking_rows_distinct [THEN conjunct1])
    ultimately show ?thesis
      using db' by simp
  qed
next
  case (review_inserted db e auth ri db')
  from review_inserted.hyps(2) obtain row where
    "check_new_review db row = Inr db'"
    by (rule insert_review_Inr)
  with review_inserted.IH show ?case
    by (auto dest!: check_new_review_Inr)
next
  case (booking_deleted db bid)
  then show ?case
    by (simp add: delete_booking_def distinct_map_filter)
next
  case (mechanic_deleted db mid)
  have "map b_id (bookings (delete_mechanic mid db)) = map b_id (bookings db)"
    by (induction "bookings db") (simp_all add: delete_mechanic_def)
  moreover have "\<forall>b \<in> set (bookings (delete_mechanic mid db)). valid_status (b_status b)"
    using mechanic_deleted.IH by (auto simp: delete_mechanic_def)
  ultimately show ?case
    using mechanic_deleted.IH by simp
next
  case (profile_deleted db pid)
  then show ?case
    by (auto simp: delete_profile_tables intro!: distinct_ids_filter_map)
next
  case (price_changed db sid p)
  then show ?case
    by (simp add: update_service_base_price_def)
qed

lemma reachable_reviews:
  "reachable db \<Longrightarrow> \<forall>r \<in> set (reviews db). valid_rating (r_rating r)"
proof (induction rule: reachable.induct)
  case (migrated ids t)
  then show ?case by (simp add: initial_db_def)
next
  case (profile_inserted db auth p db')
  then show ?case by (auto dest: insert_profile_Inr)
next
  case (mechanic_inserted db auth m db')
  then show ?case by (auto dest: insert_mechanic_Inr)
next
  case (booking_inserted db e auth bi db')
  from booking_inserted.hyps(2) obtain row where
    "check_new_booking db row = Inr db'"
    by (rule insert_booking_Inr)
  with booking_inserted.IH show ?case
    by (auto dest!: check_new_booking_Inr)
next
  case (booking_updated db auth bid u db')
  then show ?case
    by (auto dest!: update_booking_Inr)
next
  case (review_inserted db e auth ri db')
  from review_inserted.hyps(2) obtain row where
    "check_new_review db row = Inr db'"
    by (rule insert_review_Inr)
  with review_inserted.IH show ?case
    by (auto dest!: check_new_review_Inr)
next
  case (booking_deleted db bid)
  then show ?case by (simp add: delete_booking_def)
next
  case (mechanic_deleted db mid)
  then show ?case by (simp add: delete_mechanic_def)
next
  case (profile_deleted db pid)
  then show ?case by (simp add: delete_profile_tables)
next
  case (price_changed db sid p)
  then show ?case by (simp add: update_service_base_price_def)
qed

subsection \<open>Two reachable stores\<close>

lemmas example_defs =
  store_with_def initial_db_def sample_services_def sample_service_row_def example_profile_def
  example_mechanic_def example_booking_def example_review_def example_env_def
  example_payload_def example_rating_def

lemma reachable_with_booking:
  "reachable (store_with [example_profile 1 ''customer'', example_profile 3 ''mechanic'']
       [example_mechanic 10 3] [example_booking 1000 1 (Some 10) ''pending''] [])"
proof -
  let ?p1 = "example_profile 1 ''customer''" and ?p3 = "example_profile 3 ''mechanic''"
  let ?m = "example_mechanic 10 3"
  have "reachable (store_with [] [] [] [])"
    using reachable.migrated [of "[101, 102, 103, 104, 105, 106, 107, 108]" 0]
    by (simp add: store_with_def initial_db_def sample_services_def)
  moreover have "insert_profile (Some 1) ?p1 (store_with [] [] [] []) = Inr (store_with [?p1] [] [] [])"
    by (simp add: insert_profile_def valid_user_type_def example_defs)
  ultimately have "reachable (store_with [?p1] [] [] [])"
    by (rule reachable.profile_inserted)
  moreover have "insert_profile (Some 3) ?p3 (store_with [?p1] [] [] []) = Inr (store_with [?p1, ?p3] [] [] [])"
    by (simp add: insert_profile_def valid_user_type_def example_defs)
  ultimately have "reachable (store_with [?p1, ?p3] [] [] [])"
    by (rule reachable.profile_inserted)
  moreover have "insert_mechanic (Some 3) ?m (store_with [?p1, ?p3] [] [] [])
      = Inr (store_with [?p1, ?p3] [?m] [] [])"
    by (simp add: insert_mechanic_def example_defs)
  ultimately have "reachable (store_with [?p1, ?p3] [?m] [] [])"
    by (rule reachable.mechanic_inserted)
  moreover have "insert_booking example_env (Some 1) (example_payload 1 (Some 10))
        (store_with [?p1, ?p3] [?m] [] [])
      = Inr (store_with [?p1, ?p3] [?m] [example_booking 1000 1 (Some 10) ''pending''] [])"
    by (simp add: insert_booking_def check_new_booking_def booking_row_def int4_range_def
        customers_can_create_bookings_def valid_status_def mechanic_exists_def example_defs)
  ultimately show ?thesis
    by (rule reachable.booking_inserted)
qed

lemma reachable_with_review:
  "reachable (store_with [example_profile 1 ''customer'', example_profile 3 ''mechanic'']
       [example_mechanic 10 3] [example_booking 1000 1 (Some 10) ''pending'']
       [example_review 2000 1000 1 10 4])"
proof -
  have "insert_review (example_env\<lparr>gen_random_uuid := 2000\<rparr>) (Some 1) (example_rating 4)
        (store_with [example_profile 1 ''customer'', example_profile 3 ''mechanic'']
           [example_mechanic 10 3] [example_booking 1000 1 (Some 10) ''pending''] [])
      = Inr (store_with [example_profile 1 ''customer'', example_profile 3 ''mechanic'']
           [example_mechanic 10 3] [example_booking 1000 1 (Some 10) ''pending'']
           [example_review 2000 1000 1 10 4])"
    by (simp add: insert_review_def check_new_review_def review_row_def int4_range_def
        customers_can_create_reviews_def valid_rating_def example_defs)
  with reachable_with_booking show ?thesis
    by (rule reachable.review_inserted)
qed


section \<open>The status of a booking\<close>

lemma apply_status_only: "apply_update (no_change\<lparr>set_status := Some s\<rparr>) b = b\<lparr>b_status := s\<rparr>"
  by (simp add: apply_update_def no_change_def assign_def)

lemma check_status_only:
  "bookings_update_using db uid b \<Longrightarrow> valid_status s \<Longrightarrow>
     check_updated_booking db uid b (b\<lparr>b_status := s\<rparr>) = Inr (b\<lparr>b_status := s\<rparr>)"
  by (simp add: check_updated_booking_def bookings_update_with_check_def
      bookings_update_using_def customers_can_update_own_bookings_def
      mechanics_can_update_assigned_bookings_def)

lemma status_only_rows:
  assumes "valid_status s"
  shows "\<forall>x \<in> set bs. b_id x = bid \<longrightarrow> bookings_update_using db uid x \<Longrightarrow>
     update_booking_rows db uid bid (no_change\<lparr>set_status := Some s\<rparr>) bs
       = Inr (map (\<lambda>x. if b_id x = bid then x\<lparr>b_status := s\<rparr> else x) bs)"
  by (induction bs) (simp_all add: apply_status_only check_status_only assms)

text \<open>
  Claim C4. In every state the store can reach, the status of every booking is one of
  \<open>pending\<close>, \<open>accepted\<close>, \<open>in_progress\<close>, \<open>completed\<close>, \<open>cancelled\<close>. The
  store restricts a status write no further: a principal who passes the update policies
  for a booking can set its status, whatever it is, to any of the five values in one
  update, which changes that row's status and nothing else.
\<close>

theorem status_domain_and_unrestricted_writes:
  assumes "reachable db"
  shows "(\<forall>b \<in> set (bookings db).
            b_status b \<in> {''pending'', ''accepted'', ''in_progress'', ''completed'', ''cancelled''})
       \<and> (\<forall>b \<in> set (bookings db). \<forall>uid s.
            bookings_update_using db uid b
              \<and> s \<in> {''pending'', ''accepted'', ''in_progress'', ''completed'', ''cancelled''}
            \<longrightarrow> update_booking (Some uid) (b_id b) (no_change\<lparr>set_status := Some s\<rparr>) db
                  = Inr (db\<lparr>bookings :=
                           map (\<lambda>x. if b_id x = b_id b then x\<lparr>b_status := s\<rparr> else x) (bookings db)\<rparr>))"
proof
  from assms have "\<forall>b \<in> set (bookings db). valid_status (b_status b)"
    by (simp add: reachable_bookings)
  then show "\<forall>b \<in> set (bookings db).
      b_status b \<in> {''pending'', ''accepted'', ''in_progress'', ''completed'', ''cancelled''}"
    by (simp add: valid_status_def)
next
  from assms have d: "distinct (map b_id (bookings db))"
    by (simp add: reachable_bookings)
  show "\<forall>b \<in> set (bookings db). \<forall>uid s.
            bookings_update_using db uid b
              \<and> s \<in> {''pending'', ''accepted'', ''in_progress'', ''completed'', ''cancelled''}
            \<longrightarrow> update_booking (Some uid) (b_id b) (no_change\<lparr>set_status := Some s\<rparr>) db
                  = Inr (db\<lparr>bookings :=
                           map (\<lambda>x. if b_id x = b_id b then x\<lparr>b_status := s\<rparr> else x) (bookings db)\<rparr>)"
  proof (intro ballI allI impI)
    fix b uid s
    assume b: "b \<in> set (bookings db)"
      and h: "bookings_update_using db uid b
          \<and> s \<in> {''pending'', ''accepted'', ''in_progress'', ''completed'', ''cancelled''}"
    from h have s: "valid_status s"
      by (simp add: valid_status_def)
    have "\<forall>x \<in> set (bookings db). b_id x = b_id b \<longrightarrow> bookings_update_using db uid x"
    proof (intro ballI impI)
      fix x assume "x \<in> set (bookings db)" "b_id x = b_id b"
      with d b have "x = b"
        by (meson distinct_map inj_onD)
      with h show "bookings_update_using db uid x" by simp
    qed
    then have "update_booking_rows db uid (b_id b) (no_change\<lparr>set_status := Some s\<rparr>) (bookings db)
       = Inr (map (\<lambda>x. if b_id x = b_id b then x\<lparr>b_status := s\<rparr> else x) (bookings db))"
      by (rule status_only_rows [OF s])
    then show "update_booking (Some uid) (b_id b) (no_change\<lparr>set_status := Some s\<rparr>) db
        = Inr (db\<lparr>bookings :=
                 map (\<lambda>x. if b_id x = b_id b then x\<lparr>b_status := s\<rparr> else x) (bookings db)\<rparr>)"
      by (simp add: update_booking_def no_change_def)
  qed
qed

text \<open>
  On a reachable store, the assigned mechanic's user moves a booking from \<open>pending\<close>
  straight to \<open>completed\<close>.
\<close>

theorem status_domain_and_unrestricted_writes_witness:
  "reachable (store_with [example_profile 1 ''customer'', example_profile 3 ''mechanic'']
       [example_mechanic 10 3] [example_booking 1000 1 (Some 10) ''pending''] [])
   \<and> bookings_update_using
       (store_with [example_profile 1 ''customer'', example_profile 3 ''mechanic'']
          [example_mechanic 10 3] [example_booking 1000 1 (Some 10) ''pending''] [])
       3 (example_booking 1000 1 (Some 10) ''pending'')
   \<and> update_booking (Some 3) 1000 (no_change\<lparr>set_status := Some ''completed''\<rparr>)
       (store_with [example_profile 1 ''customer'', example_profile 3 ''mechanic'']
          [example_mechanic 10 3] [example_booking 1000 1 (Some 10) ''pending''] [])
     = Inr (store_with [example_profile 1 ''customer'', example_profile 3 ''mechanic'']
          [example_mechanic 10 3] [example_booking 1000 1 (Some 10) ''completed''] [])"
  using status_domain_and_unrestricted_writes [OF reachable_with_booking] reachable_with_booking
  by (simp add: bookings_update_using_def customers_can_update_own_bookings_def
      mechanics_can_update_assigned_bookings_def mechanic_id_in_def own_mechanic_ids_def
      example_defs)

section \<open>Reviews\<close>

text \<open>
  Claim C9. In every state the store can reach, the rating of every review is an integer
  from 1 to 5. An insert whose rating is below 1 or above 5 is rejected with an error,
  whoever issues it and whatever the other columns are: it returns no new store, so the
  reviews stay as they were.
\<close>

theorem rating_between_1_and_5:
  assumes "reachable db"
  shows "(\<forall>r \<in> set (reviews db). 1 \<le> r_rating r \<and> r_rating r \<le> 5)
       \<and> (\<forall>e auth ri n. ri_rating ri = Some n \<and> (n < 1 \<or> 5 < n)
            \<longrightarrow> (\<exists>err. insert_review e auth ri db = Inl err))"
proof
  from assms have "\<forall>r \<in> set (reviews db). valid_rating (r_rating r)"
    by (rule reachable_reviews)
  then show "\<forall>r \<in> set (reviews db). 1 \<le> r_rating r \<and> r_rating r \<le> 5"
    by (simp add: valid_rating_def)
next
  show "\<forall>e auth ri n. ri_rating ri = Some n \<and> (n < 1 \<or> 5 < n)
            \<longrightarrow> (\<exists>err. insert_review e auth ri db = Inl err)"
  proof (intro allI impI)
    fix e auth and ri :: review_insert and n
    assume h: "ri_rating ri = Some n \<and> (n < 1 \<or> 5 < n)"
    have "insert_review e auth ri db = Inr db' \<Longrightarrow> False" for db'
    proof -
      assume "insert_review e auth ri db = Inr db'"
      then obtain uid bid mid k where "ri_rating ri = Some k"
        and "check_new_review db (review_row e ri bid uid mid k) = Inr db'"
        by (rule insert_review_Inr)
      then have "ri_rating ri = Some k" "valid_rating k"
        by (auto dest: check_new_review_Inr simp: review_row_def)
      with h show False
        by (auto simp: valid_rating_def)
    qed
    then show "\<exists>err. insert_review e auth ri db = Inl err"
      by (cases "insert_review e auth ri db") auto
  qed
qed

text \<open>
  On a reachable store with one review of rating 4, the ratings 6 and 0 are refused by the
  check constraint.
\<close>

theorem rating_between_1_and_5_witness:
  "reachable (store_with [example_profile 1 ''customer'', example_profile 3 ''mechanic'']
       [example_mechanic 10 3] [example_booking 1000 1 (Some 10) ''pending'']
       [example_review 2000 1000 1 10 4])
   \<and> r_rating (example_review 2000 1000 1 10 4) = 4
   \<and> ri_rating (example_rating 6) = Some 6 \<and> (5::int) < 6
   \<and> insert_review example_env (Some 1) (example_rating 6)
       (store_with [example_profile 1 ''customer'', example_profile 3 ''mechanic'']
          [example_mechanic 10 3] [example_booking 1000 1 (Some 10) ''pending'']
          [example_review 2000 1000 1 10 4])
     = Inl (ConstraintViolation ''valid_rating'')
   \<and> insert_review example_env (Some 1) (example_rating 0)
       (store_with [example_profile 1 ''customer'', example_profile 3 ''mechanic'']
          [example_mechanic 10 3] [example_booking 1000 1 (Some 10) ''pending'']
          [example_review 2000 1000 1 10 4])
     = Inl (ConstraintViolation ''valid_rating'')"
  using rating_between_1_and_5 [OF reachable_with_review] reachable_with_review
  by (simp add: insert_review_def check_new_review_def review_row_def int4_range_def
      customers_can_create_reviews_def valid_rating_def example_defs)

text \<open>
  Claim C10. The insert policy of reviews compares the new row's \<^verbatim>\<open>customer_id\<close>
  with the principal and nothing else. An authenticated principal who names themselves as
  the customer inserts a review for any existing booking \<open>b\<close>, whatever the status and
  the customer of \<open>b\<close> are and whatever reviews exist already, provided the rating is
  in range and the referenced rows exist.
\<close>

theorem review_insert_checks_customer_only:
  "customers_can_create_reviews uid (ri_customer_id ri) = (ri_customer_id ri = Some uid)
   \<and> (ri_customer_id ri = Some uid \<and> ri_booking_id ri = Some bid \<and> ri_mechanic_id ri = Some mid
        \<and> ri_rating ri = Some n \<and> 1 \<le> n \<and> n \<le> 5
        \<and> b \<in> set (bookings db) \<and> b_id b = bid
        \<and> uid \<in> set (map p_id (profiles db)) \<and> mid \<in> set (map m_id (mechanics db))
        \<and> gen_random_uuid e \<notin> set (map r_id (reviews db))
      \<longrightarrow> insert_review e (Some uid) ri db
            = Inr (db\<lparr>reviews := reviews db @ [review_row e ri bid uid mid n]\<rparr>))"
  by (auto simp: customers_can_create_reviews_def insert_review_def check_new_review_def
      review_row_def valid_rating_def int4_range_def)

text \<open>
  Customer 1 reviews the booking 1002, which belongs to customer 2, is \<open>accepted\<close> and
  not completed, and has a review already.
\<close>

theorem review_insert_checks_customer_only_witness:
  "ri_customer_id ((example_rating 5)\<lparr>ri_booking_id := Some 1002\<rparr>) = Some 1
   \<and> b_customer_id (example_booking 1002 2 (Some 11) ''accepted'') \<noteq> 1
   \<and> b_status (example_booking 1002 2 (Some 11) ''accepted'') \<noteq> ''completed''
   \<and> example_booking 1002 2 (Some 11) ''accepted'' \<in> set (bookings ledger_db)
   \<and> example_review 2000 1002 2 11 4 \<in> set (reviews ledger_db)
   \<and> insert_review example_env (Some 1) ((example_rating 5)\<lparr>ri_booking_id := Some 1002\<rparr>) ledger_db
      = Inr (ledger_db\<lparr>reviews := [example_review 2000 1002 2 11 4, example_review 1000 1002 1 10 5]\<rparr>)"
  using review_insert_checks_customer_only
    [of 1 "(example_rating 5)\<lparr>ri_booking_id := Some 1002\<rparr>" 1002 10 5
      "example_booking 1002 2 (Some 11) ''accepted''" ledger_db example_env]
  by (simp add: ledger_db_def example_db_def review_row_def example_defs)

section \<open>Deletions\<close>





section \<open>Creating a booking\<close>

lemma parseInt_2020: "parseInt ''2020'' = Finite 2020"
  by code_simp

lemma oil_change_price: "to_number (4999 / 100) = Finite (4999 / 100)"
  by code_simp

lemma to_number_not_NaN: "to_number x \<noteq> NaN"
  by (simp add: to_number_def Let_def)

lemma example_form_fields:
  "serviceId example_form = Some 101"
  "profile example_form = Some (example_profile 1 ''customer'')"
  "map_option sv_base_price (service example_form) = Some (Finite (4999 / 100))"
  "selectedMechanic example_form = Some 10"
  "vehicleMake example_form = ''Toyota''" "vehicleModel example_form = ''Camry''"
  "vehicleYear example_form = ''2020''" "locationAddress example_form = ''1 Main Street''"
  "notes_text example_form = []"
  by (simp_all add: example_form_def loadData_def initial_screen_def maybeSingle_def
      service_json_def oil_change_price example_db_def example_defs)

lemmas submit_eval =
  handleSubmit_def json_integer_def json_number_def or_zero_def insert_booking_def
  check_new_booking_def booking_row_def int4_range_def customers_can_create_bookings_def
  valid_status_def mechanic_exists_def

lemma example_submit:
  "handleSubmit example_env 4 example_form (Some 1) example_db
     = Inr (example_db\<lparr>bookings := [example_booking 1000 1 (Some 10) ''pending'']\<rparr>)"
  by (simp add: submit_eval example_form_fields parseInt_2020 example_db_def example_defs)

lemma handleSubmit_Inr:
  assumes "handleSubmit e t st auth db = Inr db'"
  obtains uid sid y p where
    "auth = Some uid" "map_option p_id (profile st) = Some uid" "serviceId st = Some sid"
    "json_integer (parseInt (vehicleYear st)) = Some y" "int4_range y"
    "json_number (or_zero (map_option sv_base_price (service st))) = Some p"
    "selectedMechanic st \<noteq> None"
    "vehicleMake st \<noteq> []" "vehicleModel st \<noteq> []" "vehicleYear st \<noteq> []" "locationAddress st \<noteq> []"
    "sid \<in> set (map s_id (services db))"
    "db' = db\<lparr>bookings := bookings db @
       [\<lparr> b_id = gen_random_uuid e, b_customer_id = uid, b_mechanic_id = selectedMechanic st,
          b_service_id = sid, b_status = ''pending'', b_vehicle_make = vehicleMake st,
          b_vehicle_model = vehicleModel st, b_vehicle_year = y,
          b_location_address = locationAddress st, b_location_latitude = 0,
          b_location_longitude = 0, b_scheduled_time = t, b_total_price = p,
          b_notes = Some (notes_text st), b_created_at = Some (now e),
          b_updated_at = Some (now e) \<rparr>]\<rparr>"
proof -
  from assms have guard: "selectedMechanic st \<noteq> None"
    "vehicleMake st \<noteq> []" "vehicleModel st \<noteq> []" "vehicleYear st \<noteq> []" "locationAddress st \<noteq> []"
    by (auto simp: handleSubmit_def split: if_splits)
  let ?bi = "\<lparr> bi_customer_id = map_option p_id (profile st),
          bi_mechanic_id = selectedMechanic st,
          bi_service_id = serviceId st,
          bi_vehicle_make = vehicleMake st,
          bi_vehicle_model = vehicleModel st,
          bi_vehicle_year = json_integer (parseInt (vehicleYear st)),
          bi_location_address = locationAddress st,
          bi_location_latitude = 0,
          bi_location_longitude = 0,
          bi_scheduled_time = t,
          bi_total_price = json_number (or_zero (map_option sv_base_price (service st))),
          bi_notes = Some (notes_text st),
          bi_status = Some ''pending'' \<rparr>"
  from assms guard have "insert_booking e auth ?bi db = Inr db'"
    by (simp add: handleSubmit_def)
  then obtain uid sid y p where a: "auth = Some uid" "bi_customer_id ?bi = Some uid"
    "bi_service_id ?bi = Some sid" "bi_vehicle_year ?bi = Some y" "int4_range y"
    "bi_total_price ?bi = Some p"
    and c: "check_new_booking db (booking_row e ?bi uid sid y p) = Inr db'"
    by (rule insert_booking_Inr)
  from c have "db' = db\<lparr>bookings := bookings db @ [booking_row e ?bi uid sid y p]\<rparr>"
    and "b_service_id (booking_row e ?bi uid sid y p) \<in> set (map s_id (services db))"
    by (auto dest: check_new_booking_Inr)
  with a guard show thesis
    by (intro that [of uid sid y p]) (simp_all add: booking_row_def)
qed

text \<open>
  Claim C6. A change of a service's \<^verbatim>\<open>base_price\<close> leaves the bookings table as it
  is. In particular, after a booking for the service \<open>S\<close> is created, changing the price
  of \<open>S\<close> leaves the new booking, with the total price it was created with, and every
  older booking unchanged.
\<close>

theorem price_change_keeps_bookings:
  "bookings (update_service_base_price S p db) = bookings db
   \<and> (handleSubmit e t st auth db = Inr db' \<and> serviceId st = Some S
      \<longrightarrow> (\<exists>b. bookings db' = bookings db @ [b] \<and> b_service_id b = S
             \<and> bookings (update_service_base_price S p db') = bookings db @ [b]
             \<and> Some (b_total_price b)
                 = json_number (or_zero (map_option sv_base_price (service st)))))"
proof
  show "bookings (update_service_base_price S p db) = bookings db"
    by (simp add: update_service_base_price_def)
next
  show "handleSubmit e t st auth db = Inr db' \<and> serviceId st = Some S
      \<longrightarrow> (\<exists>b. bookings db' = bookings db @ [b] \<and> b_service_id b = S
             \<and> bookings (update_service_base_price S p db') = bookings db @ [b]
             \<and> Some (b_total_price b)
                 = json_number (or_zero (map_option sv_base_price (service st))))"
  proof
    assume h: "handleSubmit e t st auth db = Inr db' \<and> serviceId st = Some S"
    then have "handleSubmit e t st auth db = Inr db'" ..
    then show "\<exists>b. bookings db' = bookings db @ [b] \<and> b_service_id b = S
             \<and> bookings (update_service_base_price S p db') = bookings db @ [b]
             \<and> Some (b_total_price b)
                 = json_number (or_zero (map_option sv_base_price (service st)))"
    proof (rule handleSubmit_Inr)
      fix uid sid y q
      assume "serviceId st = Some sid"
        and "json_number (or_zero (map_option sv_base_price (service st))) = Some q"
        and "db' = db\<lparr>bookings := bookings db @
       [\<lparr> b_id = gen_random_uuid e, b_customer_id = uid, b_mechanic_id = selectedMechanic st,
          b_service_id = sid, b_status = ''pending'', b_vehicle_make = vehicleMake st,
          b_vehicle_model = vehicleModel st, b_vehicle_year = y,
          b_location_address = locationAddress st, b_location_latitude = 0,
          b_location_longitude = 0, b_scheduled_time = t, b_total_price = q,
          b_notes = Some (notes_text st), b_created_at = Some (now e),
          b_updated_at = Some (now e) \<rparr>]\<rparr>"
      with h show ?thesis
        by (simp add: update_service_base_price_def)
    qed
  qed
qed

text \<open>
  Customer 1 books the oil change at 49.99; the catalog price then changes to 59.99 and
  the booking is as it was.
\<close>

theorem price_change_keeps_bookings_witness:
  "handleSubmit example_env 4 example_form (Some 1) example_db
     = Inr (example_db\<lparr>bookings := [example_booking 1000 1 (Some 10) ''pending'']\<rparr>)
   \<and> serviceId example_form = Some 101
   \<and> map s_base_price (filter (\<lambda>s. s_id s = 101)
        (services (update_service_base_price 101 (5999 / 100)
           (example_db\<lparr>bookings := [example_booking 1000 1 (Some 10) ''pending'']\<rparr>))))
       = [5999 / 100]
   \<and> bookings (update_service_base_price 101 (5999 / 100)
        (example_db\<lparr>bookings := [example_booking 1000 1 (Some 10) ''pending'']\<rparr>))
       = [example_booking 1000 1 (Some 10) ''pending'']
   \<and> b_total_price (example_booking 1000 1 (Some 10) ''pending'') = 4999 / 100"
proof -
  let ?db' = "example_db\<lparr>bookings := [example_booking 1000 1 (Some 10) ''pending'']\<rparr>"
  from price_change_keeps_bookings
      [of 101 "5999 / 100" example_db example_env 4 example_form "Some 1" ?db']
    example_submit example_form_fields(1)
  obtain b where b: "bookings ?db' = bookings example_db @ [b]"
    "bookings (update_service_base_price 101 (5999 / 100) ?db') = bookings example_db @ [b]"
    by blast
  have none: "bookings example_db = []"
    by (simp add: example_db_def initial_db_def)
  from b(1) none have "b = example_booking 1000 1 (Some 10) ''pending''"
    by simp
  with b(2) none have kept: "bookings (update_service_base_price 101 (5999 / 100) ?db')
      = [example_booking 1000 1 (Some 10) ''pending'']"
    by simp
  have changed: "map s_base_price (filter (\<lambda>s. s_id s = 101)
        (services (update_service_base_price 101 (5999 / 100) ?db'))) = [5999 / 100]"
    by (simp add: update_service_base_price_def example_db_def example_defs)
  have price: "b_total_price (example_booking 1000 1 (Some 10) ''pending'') = 4999 / 100"
    by (simp add: example_booking_def)
  show ?thesis
    by (intro conjI) (fact example_submit example_form_fields(1) changed kept price)+
qed

lemma single_row_with_id:
  "distinct (map f xs) \<Longrightarrow> x \<in> set xs \<Longrightarrow> filter (\<lambda>y. f y = f x) xs = [x]"
proof (induction xs)
  case Nil
  then show ?case by simp
next
  case (Cons a xs)
  show ?case
  proof (cases "a = x")
    case True
    with Cons.prems(1) have "\<forall>y \<in> set xs. f y \<noteq> f x"
      by (metis distinct.simps(2) imageI list.simps(9) list.set_map)
    then have "filter (\<lambda>y. f y = f x) xs = []"
      by (simp add: filter_empty_conv)
    with True show ?thesis by simp
  next
    case False
    with Cons.prems have "x \<in> set xs" "f a \<noteq> f x"
      by auto
    with Cons.IH Cons.prems(1) show ?thesis by simp
  qed
qed

lemma loaded_service:
  assumes "distinct (map s_id (services db))" "sid \<in> set (map s_id (services db))"
  shows "\<exists>s \<in> set (services db). s_id s = sid
           \<and> service (loadData db (Some uid) (initial_screen (Some sid) prof))
               = Some (service_json s)"
proof -
  from assms(2) obtain s where s: "s \<in> set (services db)" "s_id s = sid"
    by auto
  from assms(1) s(1) have "filter (\<lambda>y. s_id y = s_id s) (services db) = [s]"
    by (rule single_row_with_id)
  with s have "service (loadData db (Some uid) (initial_screen (Some sid) prof))
      = Some (service_json s)"
    by (simp add: loadData_def initial_screen_def maybeSingle_def)
  with s show ?thesis by blast
qed

lemma price_sent:
  "json_number (or_zero (Some (to_number x))) = Some q \<Longrightarrow> to_number x = Finite q"
  by (cases "to_number x") (auto simp: json_number_def or_zero_def to_number_not_NaN split: if_splits)

text \<open>
  Claim C3, as the code has it. A successful \<^verbatim>\<open>handleSubmit\<close> appends one booking,
  for the screen's service, with status \<open>pending\<close>; its total price is the
  \<^verbatim>\<open>base_price\<close> of the service record that the screen holds, 0 when the screen holds
  none. When the screen's record is the one \<^verbatim>\<open>loadData\<close> reads from the store the
  booking is inserted into, whose service ids are distinct, the total price is the
  catalog's price of the referenced service as the client's number carries it: the
  catalog's price at the moment of creation itself, whenever that price is a decimal that
  the conversion to a number and back gives again.
\<close>

theorem created_booking_snapshot:
  "handleSubmit e t st auth db = Inr db' \<longrightarrow>
     (\<exists>b. bookings db' = bookings db @ [b] \<and> b_status b = ''pending''
        \<and> Some (b_service_id b) = serviceId st
        \<and> Some (b_total_price b) = json_number (or_zero (map_option sv_base_price (service st)))
        \<and> (distinct (map s_id (services db))
              \<and> service st = service (loadData db auth (initial_screen (serviceId st) (profile st)))
            \<longrightarrow> (\<exists>s \<in> set (services db). s_id s = b_service_id b
                   \<and> to_number (s_base_price s) = Finite (b_total_price b)
                   \<and> (to_number (s_base_price s) = Finite (s_base_price s)
                        \<longrightarrow> b_total_price b = s_base_price s))))"
proof
  assume "handleSubmit e t st auth db = Inr db'"
  then show "\<exists>b. bookings db' = bookings db @ [b] \<and> b_status b = ''pending''
        \<and> Some (b_service_id b) = serviceId st
        \<and> Some (b_total_price b) = json_number (or_zero (map_option sv_base_price (service st)))
        \<and> (distinct (map s_id (services db))
              \<and> service st = service (loadData db auth (initial_screen (serviceId st) (profile st)))
            \<longrightarrow> (\<exists>s \<in> set (services db). s_id s = b_service_id b
                   \<and> to_number (s_base_price s) = Finite (b_total_price b)
                   \<and> (to_number (s_base_price s) = Finite (s_base_price s)
                        \<longrightarrow> b_total_price b = s_base_price s)))"
  proof (rule handleSubmit_Inr)
    fix uid sid y p
    let ?b = "\<lparr> b_id = gen_random_uuid e, b_customer_id = uid, b_mechanic_id = selectedMechanic st,
          b_service_id = sid, b_status = ''pending'', b_vehicle_make = vehicleMake st,
          b_vehicle_model = vehicleModel st, b_vehicle_year = y,
          b_location_address = locationAddress st, b_location_latitude = 0,
          b_location_longitude = 0, b_scheduled_time = t, b_total_price = p,
          b_notes = Some (notes_text st), b_created_at = Some (now e),
          b_updated_at = Some (now e) \<rparr>"
    assume auth: "auth = Some uid" and sid: "serviceId st = Some sid"
      and price: "json_number (or_zero (map_option sv_base_price (service st))) = Some p"
      and fk: "sid \<in> set (map s_id (services db))"
      and db': "db' = db\<lparr>bookings := bookings db @ [?b]\<rparr>"
    have same: "\<exists>s \<in> set (services db). s_id s = sid \<and> to_number (s_base_price s) = Finite p
          \<and> (to_number (s_base_price s) = Finite (s_base_price s) \<longrightarrow> p = s_base_price s)"
      if d: "distinct (map s_id (services db))"
        and l: "service st = service (loadData db auth (initial_screen (serviceId st) (profile st)))"
    proof -
      from d fk obtain s where s: "s \<in> set (services db)" "s_id s = sid"
        "service (loadData db (Some uid) (initial_screen (Some sid) (profile st)))
          = Some (service_json s)"
        using loaded_service by blast
      with l auth sid have "service st = Some (service_json s)"
        by simp
      with price have "json_number (or_zero (Some (to_number (s_base_price s)))) = Some p"
        by (simp add: service_json_def)
      then have "to_number (s_base_price s) = Finite p"
        by (rule price_sent)
      with s show ?thesis
        by auto
    qed
    show ?thesis
    proof (intro exI [of _ ?b] conjI impI)
      show "bookings db' = bookings db @ [?b]"
        using db' by simp
      show "b_status ?b = ''pending''"
        by simp
      show "Some (b_service_id ?b) = serviceId st"
        using sid by simp
      show "Some (b_total_price ?b) = json_number (or_zero (map_option sv_base_price (service st)))"
        using price by simp
      show "\<exists>s \<in> set (services db). s_id s = b_service_id ?b
                   \<and> to_number (s_base_price s) = Finite (b_total_price ?b)
                   \<and> (to_number (s_base_price s) = Finite (s_base_price s)
                        \<longrightarrow> b_total_price ?b = s_base_price s)"
        if "distinct (map s_id (services db))
              \<and> service st = service (loadData db auth (initial_screen (serviceId st) (profile st)))"
        using same that by simp
    qed
  qed
qed

text \<open>
  Booking the seeded service "Oil Change" (49.99) gives a booking with total price 49.99
  and status \<open>pending\<close>: 49.99 is a price that the client's number gives back.
\<close>

theorem created_booking_snapshot_witness:
  "handleSubmit example_env 4 example_form (Some 1) example_db
     = Inr (example_db\<lparr>bookings := [example_booking 1000 1 (Some 10) ''pending'']\<rparr>)
   \<and> map_option sv_name (service example_form) = Some ''Oil Change''
   \<and> map_option sv_base_price (service example_form) = Some (Finite (4999 / 100))
   \<and> b_status (example_booking 1000 1 (Some 10) ''pending'') = ''pending''
   \<and> b_total_price (example_booking 1000 1 (Some 10) ''pending'') = 4999 / 100
   \<and> (\<exists>s \<in> set (services example_db). s_id s = 101 \<and> s_name s = ''Oil Change''
         \<and> to_number (s_base_price s) = Finite (4999 / 100) \<and> s_base_price s = 4999 / 100)"
proof -
  let ?db' = "example_db\<lparr>bookings := [example_booking 1000 1 (Some 10) ''pending'']\<rparr>"
  have d: "distinct (map s_id (services example_db))"
    by (simp add: example_db_def example_defs)
  have l: "service example_form
      = service (loadData example_db (Some 1)
          (initial_screen (serviceId example_form) (profile example_form)))"
    by (simp add: example_form_fields) (simp add: example_form_def loadData_def)
  from created_booking_snapshot [of example_env 4 example_form "Some 1" example_db ?db']
    example_submit d l
  obtain b where b: "bookings ?db' = bookings example_db @ [b]"
    and s: "\<exists>s \<in> set (services example_db). s_id s = b_service_id b
              \<and> to_number (s_base_price s) = Finite (b_total_price b)"
    by blast
  have "bookings example_db = []"
    by (simp add: example_db_def initial_db_def)
  with b have "b = example_booking 1000 1 (Some 10) ''pending''"
    by simp
  with s obtain s where s': "s \<in> set (services example_db)" "s_id s = 101"
    "to_number (s_base_price s) = Finite (4999 / 100)"
    by (auto simp: example_booking_def)
  from s'(1,2) have "s_name s = ''Oil Change'' \<and> s_base_price s = 4999 / 100"
    by (auto simp: example_db_def example_defs)
  with s' have cat: "\<exists>s \<in> set (services example_db). s_id s = 101 \<and> s_name s = ''Oil Change''
         \<and> to_number (s_base_price s) = Finite (4999 / 100) \<and> s_base_price s = 4999 / 100"
    by blast
  have n: "map_option sv_name (service example_form) = Some ''Oil Change''"
    by (simp add: example_form_def loadData_def initial_screen_def maybeSingle_def
        service_json_def example_db_def example_defs)
  have st: "b_status (example_booking 1000 1 (Some 10) ''pending'') = ''pending''"
    and pr: "b_total_price (example_booking 1000 1 (Some 10) ''pending'') = 4999 / 100"
    by (simp_all add: example_booking_def)
  show ?thesis
    by (intro conjI) (fact example_submit n example_form_fields(3) st pr cat)+
qed

lemma long_price: "to_number (49999999999999999999 / 1000000000000000000) = Finite 50"
  by code_simp

text \<open>
  The price is the one the screen holds, not the catalog's at the moment of creation. The
  screen loaded "Oil Change" at 49.99, the catalog price is 59.99 when the form is
  submitted, and the booking is created at 49.99. A screen whose service did not load
  creates the booking at 0. And with an unchanged catalog price of 49.999999999999999999,
  which the client's number rounds, the booking is created at 50.
\<close>

theorem stale_price_booked:
  "map_option sv_base_price (service example_form) = Some (Finite (4999 / 100))
   \<and> s_id (hd (services (update_service_base_price 101 (5999 / 100) example_db))) = 101
   \<and> s_base_price (hd (services (update_service_base_price 101 (5999 / 100) example_db)))
        = 5999 / 100
   \<and> handleSubmit example_env 4 example_form (Some 1)
        (update_service_base_price 101 (5999 / 100) example_db)
      = Inr ((update_service_base_price 101 (5999 / 100) example_db)
               \<lparr>bookings := [example_booking 1000 1 (Some 10) ''pending'']\<rparr>)
   \<and> b_service_id (example_booking 1000 1 (Some 10) ''pending'') = 101
   \<and> b_total_price (example_booking 1000 1 (Some 10) ''pending'') = 4999 / 100
   \<and> (4999 / 100 :: rat) \<noteq> 5999 / 100
   \<and> handleSubmit example_env 4 (example_form\<lparr>service := None\<rparr>) (Some 1) example_db
      = Inr (example_db
               \<lparr>bookings := [(example_booking 1000 1 (Some 10) ''pending'')\<lparr>b_total_price := 0\<rparr>]\<rparr>)
   \<and> handleSubmit example_env 4
        (loadData (update_service_base_price 101 (49999999999999999999 / 1000000000000000000)
                     example_db) (Some 1) example_form)
        (Some 1)
        (update_service_base_price 101 (49999999999999999999 / 1000000000000000000) example_db)
      = Inr ((update_service_base_price 101 (49999999999999999999 / 1000000000000000000)
                example_db)
               \<lparr>bookings := [(example_booking 1000 1 (Some 10) ''pending'')\<lparr>b_total_price := 50\<rparr>]\<rparr>)"
proof -
  have c: "s_id (hd (services (update_service_base_price 101 (5999 / 100) example_db))) = 101"
    "s_base_price (hd (services (update_service_base_price 101 (5999 / 100) example_db)))
        = 5999 / 100"
    by (simp_all add: update_service_base_price_def example_db_def example_defs)
  have h: "handleSubmit example_env 4 example_form (Some 1)
        (update_service_base_price 101 (5999 / 100) example_db)
      = Inr ((update_service_base_price 101 (5999 / 100) example_db)
               \<lparr>bookings := [example_booking 1000 1 (Some 10) ''pending'']\<rparr>)"
    by (simp add: submit_eval example_form_fields parseInt_2020
        update_service_base_price_def example_db_def example_defs)
  have i: "b_service_id (example_booking 1000 1 (Some 10) ''pending'') = 101"
    and p: "b_total_price (example_booking 1000 1 (Some 10) ''pending'') = 4999 / 100"
    by (simp_all add: example_booking_def)
  have n: "(4999 / 100 :: rat) \<noteq> 5999 / 100"
    by simp
  have z: "handleSubmit example_env 4 (example_form\<lparr>service := None\<rparr>) (Some 1) example_db
      = Inr (example_db
               \<lparr>bookings := [(example_booking 1000 1 (Some 10) ''pending'')\<lparr>b_total_price := 0\<rparr>]\<rparr>)"
    by (simp add: submit_eval example_form_fields parseInt_2020 example_db_def example_defs)
  define db where
    "db = update_service_base_price 101 (49999999999999999999 / 1000000000000000000) example_db"
  define st where "st = loadData db (Some 1) example_form"
  have f: "serviceId st = Some 101"
    "profile st = Some (example_profile 1 ''customer'')"
    "map_option sv_base_price (service st) = Some (Finite 50)"
    "selectedMechanic st = Some 10"
    "vehicleMake st = ''Toyota''" "vehicleModel st = ''Camry''"
    "vehicleYear st = ''2020''" "locationAddress st = ''1 Main Street''"
    "notes_text st = []"
    by (simp_all add: st_def db_def loadData_def maybeSingle_def service_json_def long_price
        example_form_fields update_service_base_price_def example_db_def example_defs)
  have "handleSubmit example_env 4 st (Some 1) db
      = Inr (db\<lparr>bookings := [(example_booking 1000 1 (Some 10) ''pending'')\<lparr>b_total_price := 50\<rparr>]\<rparr>)"
    by (simp add: submit_eval f parseInt_2020 db_def update_service_base_price_def
        example_db_def example_defs)
  then have r: "handleSubmit example_env 4
        (loadData (update_service_base_price 101 (49999999999999999999 / 1000000000000000000)
                     example_db) (Some 1) example_form)
        (Some 1)
        (update_service_base_price 101 (49999999999999999999 / 1000000000000000000) example_db)
      = Inr ((update_service_base_price 101 (49999999999999999999 / 1000000000000000000)
                example_db)
               \<lparr>bookings := [(example_booking 1000 1 (Some 10) ''pending'')\<lparr>b_total_price := 50\<rparr>]\<rparr>)"
    by (simp only: st_def db_def)
  show ?thesis
    by (intro conjI) (fact example_form_fields(3) c h i p n z r)+
qed










section \<open>Who updates which booking\<close>

lemma update_rows_target:
  "\<forall>x \<in> set bs. b_id x = bid \<longrightarrow> bookings_update_using db uid x
       \<and> check_updated_booking db uid x (apply_update u x) = Inr (apply_update u x) \<Longrightarrow>
   update_booking_rows db uid bid u bs
     = Inr (map (\<lambda>x. if b_id x = bid then apply_update u x else x) bs)"
  by (induction bs) simp_all

lemma update_rows_refused:
  "distinct (map b_id bs) \<Longrightarrow> b \<in> set bs \<Longrightarrow> bookings_update_using db uid b \<Longrightarrow>
   check_updated_booking db uid b (apply_update u b) = Inl err \<Longrightarrow>
   update_booking_rows db uid (b_id b) u bs = Inl err"
proof (induction bs)
  case Nil
  then show ?case by simp
next
  case (Cons a bs)
  show ?case
  proof (cases "a = b")
    case True
    with Cons.prems show ?thesis by simp
  next
    case False
    with Cons.prems have "b \<in> set bs" "b_id a \<noteq> b_id b"
      by auto
    with Cons show ?thesis by simp
  qed
qed

lemma update_rows_no_target:
  "\<forall>x \<in> set bs. b_id x = bid \<longrightarrow> \<not> bookings_update_using db uid x \<Longrightarrow>
   update_booking_rows db uid bid u bs = Inr bs"
  by (induction bs) auto

lemma only_row_with_id:
  "distinct (map b_id bs) \<Longrightarrow> b \<in> set bs \<Longrightarrow> x \<in> set bs \<Longrightarrow> b_id x = b_id b \<Longrightarrow> x = b"
  by (meson distinct_map inj_onD)

lemma update_policy_iff:
  "bookings_update_using db uid b \<longleftrightarrow>
     b_customer_id b = uid
     \<or> (\<exists>m \<in> set (mechanics db). b_mechanic_id b = Some (m_id m) \<and> m_user_id m = uid)"
  "bookings_update_with_check db uid b \<longleftrightarrow>
     b_customer_id b = uid
     \<or> (\<exists>m \<in> set (mechanics db). b_mechanic_id b = Some (m_id m) \<and> m_user_id m = uid)"
  by (simp_all add: bookings_update_using_def bookings_update_with_check_def
      customers_can_update_own_bookings_def mechanics_can_update_assigned_bookings_def
      mechanic_id_in_iff)

lemma rows_affected_owned:
  assumes "distinct (map b_id (bookings db))" and "b \<in> set (bookings db)"
  shows "rows_affected db (Some uid) (b_id b) = (if bookings_update_using db uid b then 1 else 0)"
proof -
  have "filter (\<lambda>x. b_id x = b_id b \<and> bookings_update_using db uid x) (bookings db)
      = filter (bookings_update_using db uid) (filter (\<lambda>x. b_id x = b_id b) (bookings db))"
    by simp
  also have "filter (\<lambda>x. b_id x = b_id b) (bookings db) = [b]"
    using assms by (rule single_row_with_id)
  finally show ?thesis
    by (simp add: rows_affected_def)
qed

text \<open>
  Claim C8, as the code has it. A principal may update a booking exactly when they are its
  customer or the user of its assigned mechanic row, whether or not a mechanic is assigned
  and whichever of the table's sixteen columns the update sets; the new image of the row
  must satisfy the same ownership predicate. A booking the principal does not own is
  skipped (no row is affected); an owned booking whose new image they would not own is
  refused; otherwise the update replaces the row, given the table's constraints: a status
  of the five values, a changed id that no booking has and that leaves no review behind,
  and an existing row for each changed reference. (The bookings have distinct ids, and a
  year that the update sets is an integer of the column's range.)
\<close>

theorem booking_update_permission:
  assumes "distinct (map b_id (bookings db))" and "b \<in> set (bookings db)"
    and "case set_vehicle_year u of None \<Rightarrow> True | Some y \<Rightarrow> int4_range y"
  shows
   "(bookings_update_using db uid b \<longleftrightarrow>
       b_customer_id b = uid
       \<or> (\<exists>m \<in> set (mechanics db). b_mechanic_id b = Some (m_id m) \<and> m_user_id m = uid))
    \<and> (bookings_update_with_check db uid (apply_update u b) \<longleftrightarrow>
       b_customer_id (apply_update u b) = uid
       \<or> (\<exists>m \<in> set (mechanics db).
             b_mechanic_id (apply_update u b) = Some (m_id m) \<and> m_user_id m = uid))
    \<and> rows_affected db (Some uid) (b_id b) = (if bookings_update_using db uid b then 1 else 0)
    \<and> (\<not> bookings_update_using db uid b \<longrightarrow> update_booking (Some uid) (b_id b) u db = Inr db)
    \<and> (bookings_update_using db uid b \<and> \<not> bookings_update_with_check db uid (apply_update u b)
         \<longrightarrow> update_booking (Some uid) (b_id b) u db = Inl AuthorizationError)
    \<and> (bookings_update_using db uid b \<and> bookings_update_with_check db uid (apply_update u b)
         \<and> valid_status (b_status (apply_update u b))
         \<and> (b_id (apply_update u b) = b_id b
              \<or> b_id (apply_update u b) \<notin> set (map b_id (bookings db))
                \<and> b_id b \<notin> set (map r_booking_id (reviews db)))
         \<and> (b_customer_id (apply_update u b) = b_customer_id b
              \<or> b_customer_id (apply_update u b) \<in> set (map p_id (profiles db)))
         \<and> (b_mechanic_id (apply_update u b) = b_mechanic_id b
              \<or> mechanic_exists db (b_mechanic_id (apply_update u b)))
         \<and> (b_service_id (apply_update u b) = b_service_id b
              \<or> b_service_id (apply_update u b) \<in> set (map s_id (services db)))
         \<longrightarrow> update_booking (Some uid) (b_id b) u db
               = Inr (db\<lparr>bookings :=
                        map (\<lambda>x. if b_id x = b_id b then apply_update u x else x) (bookings db)\<rparr>))"
proof (intro conjI impI)
  show "bookings_update_using db uid b \<longleftrightarrow>
       b_customer_id b = uid
       \<or> (\<exists>m \<in> set (mechanics db). b_mechanic_id b = Some (m_id m) \<and> m_user_id m = uid)"
    by (rule update_policy_iff)
  show "bookings_update_with_check db uid (apply_update u b) \<longleftrightarrow>
       b_customer_id (apply_update u b) = uid
       \<or> (\<exists>m \<in> set (mechanics db).
             b_mechanic_id (apply_update u b) = Some (m_id m) \<and> m_user_id m = uid)"
    by (rule update_policy_iff)
  show "rows_affected db (Some uid) (b_id b) = (if bookings_update_using db uid b then 1 else 0)"
    using assms(1,2) by (rule rows_affected_owned)
  have year: "\<not> (case set_vehicle_year u of None \<Rightarrow> False | Some y \<Rightarrow> \<not> int4_range y)"
    using assms(3) by (simp split: option.splits)
  have only: "x = b" if "x \<in> set (bookings db)" "b_id x = b_id b" for x
    using assms(1,2) that by (rule only_row_with_id)
  show "update_booking (Some uid) (b_id b) u db = Inr db"
    if "\<not> bookings_update_using db uid b"
  proof -
    from that only have "\<forall>x \<in> set (bookings db). b_id x = b_id b \<longrightarrow> \<not> bookings_update_using db uid x"
      by blast
    then have "update_booking_rows db uid (b_id b) u (bookings db) = Inr (bookings db)"
      by (rule update_rows_no_target)
    with year show ?thesis
      by (simp add: update_booking_def)
  qed
  show "update_booking (Some uid) (b_id b) u db = Inl AuthorizationError"
    if "bookings_update_using db uid b \<and> \<not> bookings_update_with_check db uid (apply_update u b)"
  proof -
    from that have "check_updated_booking db uid b (apply_update u b) = Inl AuthorizationError"
      by (simp add: check_updated_booking_def)
    with assms(1,2) that
    have "update_booking_rows db uid (b_id b) u (bookings db) = Inl AuthorizationError"
      by (simp add: update_rows_refused)
    with year show ?thesis
      by (simp add: update_booking_def)
  qed
  show "update_booking (Some uid) (b_id b) u db
       = Inr (db\<lparr>bookings :=
                map (\<lambda>x. if b_id x = b_id b then apply_update u x else x) (bookings db)\<rparr>)"
    if "bookings_update_using db uid b \<and> bookings_update_with_check db uid (apply_update u b)
         \<and> valid_status (b_status (apply_update u b))
         \<and> (b_id (apply_update u b) = b_id b
              \<or> b_id (apply_update u b) \<notin> set (map b_id (bookings db))
                \<and> b_id b \<notin> set (map r_booking_id (reviews db)))
         \<and> (b_customer_id (apply_update u b) = b_customer_id b
              \<or> b_customer_id (apply_update u b) \<in> set (map p_id (profiles db)))
         \<and> (b_mechanic_id (apply_update u b) = b_mechanic_id b
              \<or> mechanic_exists db (b_mechanic_id (apply_update u b)))
         \<and> (b_service_id (apply_update u b) = b_service_id b
              \<or> b_service_id (apply_update u b) \<in> set (map s_id (services db)))"
  proof -
    from that have "check_updated_booking db uid b (apply_update u b) = Inr (apply_update u b)"
      by (auto simp: check_updated_booking_def)
    with that only have "\<forall>x \<in> set (bookings db). b_id x = b_id b \<longrightarrow>
        bookings_update_using db uid x
        \<and> check_updated_booking db uid x (apply_update u x) = Inr (apply_update u x)"
      by blast
    then have "update_booking_rows db uid (b_id b) u (bookings db)
        = Inr (map (\<lambda>x. if b_id x = b_id b then apply_update u x else x) (bookings db))"
      by (rule update_rows_target)
    with year show ?thesis
      by (simp add: update_booking_def)
  qed
qed

lemmas update_eval =
  update_booking_def apply_update_def assign_def no_change_def check_updated_booking_def
  bookings_update_using_def bookings_update_with_check_def customers_can_update_own_bookings_def
  mechanics_can_update_assigned_bookings_def mechanic_id_in_def own_mechanic_ids_def
  valid_status_def mechanic_exists_def int4_range_def

text \<open>
  The customer changes the vehicle make of a booking that has a mechanic assigned, and the
  assigned mechanic's user changes its total price.
\<close>

theorem customer_and_mechanic_update_freely:
  "b_mechanic_id (example_booking 1000 1 (Some 10) ''pending'') = Some 10
   \<and> update_booking (Some 1) 1000 (no_change\<lparr>set_vehicle_make := Some ''Honda''\<rparr>) ledger_db
       = Inr (ledger_db\<lparr>bookings :=
           [(example_booking 1000 1 (Some 10) ''pending'')\<lparr>b_vehicle_make := ''Honda''\<rparr>,
            example_booking 1001 2 None ''pending'',
            example_booking 1002 2 (Some 11) ''accepted'']\<rparr>)
   \<and> update_booking (Some 3) 1000 (no_change\<lparr>set_total_price := Some 1\<rparr>) ledger_db
       = Inr (ledger_db\<lparr>bookings :=
           [(example_booking 1000 1 (Some 10) ''pending'')\<lparr>b_total_price := 1\<rparr>,
            example_booking 1001 2 None ''pending'',
            example_booking 1002 2 (Some 11) ''accepted'']\<rparr>)"
  by (simp add: update_eval ledger_db_def example_db_def example_defs)


text \<open>
  On the example ledger: customer 2 affects no row of the booking of customer 1; the
  mechanic user 3 may not hand the booking to the mechanic row of another user; customer 1
  edits the notes of their assigned booking; the mechanic user 3 gives the booking a new
  id and clears its creation time.
\<close>

theorem booking_update_permission_witness:
  "distinct (map b_id (bookings ledger_db))
   \<and> example_booking 1000 1 (Some 10) ''pending'' \<in> set (bookings ledger_db)
   \<and> rows_affected ledger_db (Some 2) 1000 = 0
   \<and> update_booking (Some 2) 1000 (no_change\<lparr>set_status := Some ''cancelled''\<rparr>) ledger_db
       = Inr ledger_db
   \<and> update_booking (Some 3) 1000 (no_change\<lparr>set_mechanic_id := Some (Some 11)\<rparr>) ledger_db
       = Inl AuthorizationError
   \<and> update_booking (Some 1) 1000 (no_change\<lparr>set_notes := Some (Some ''call first'')\<rparr>) ledger_db
       = Inr (ledger_db\<lparr>bookings :=
           [(example_booking 1000 1 (Some 10) ''pending'')\<lparr>b_notes := Some ''call first''\<rparr>,
            example_booking 1001 2 None ''pending'',
            example_booking 1002 2 (Some 11) ''accepted'']\<rparr>)
   \<and> update_booking (Some 3) 1000
         (no_change\<lparr>set_id := Some 1005, set_created_at := Some None\<rparr>) ledger_db
       = Inr (ledger_db\<lparr>bookings :=
           [(example_booking 1000 1 (Some 10) ''pending'')\<lparr>b_id := 1005, b_created_at := None\<rparr>,
            example_booking 1001 2 None ''pending'',
            example_booking 1002 2 (Some 11) ''accepted'']\<rparr>)"
proof -
  let ?b = "example_booking 1000 1 (Some 10) ''pending''"
  have d: "distinct (map b_id (bookings ledger_db))"
    by (simp add: ledger_db_def example_booking_def)
  have m: "?b \<in> set (bookings ledger_db)"
    by (simp add: ledger_db_def)
  have i: "b_id ?b = 1000"
    by (simp add: example_booking_def)
  have y: "case set_vehicle_year (no_change\<lparr>set_status := Some ''cancelled''\<rparr>) of
             None \<Rightarrow> True | Some y \<Rightarrow> int4_range y"
    "case set_vehicle_year (no_change\<lparr>set_mechanic_id := Some (Some 11)\<rparr>) of
             None \<Rightarrow> True | Some y \<Rightarrow> int4_range y"
    "case set_vehicle_year (no_change\<lparr>set_notes := Some (Some ''call first'')\<rparr>) of
             None \<Rightarrow> True | Some y \<Rightarrow> int4_range y"
    "case set_vehicle_year (no_change\<lparr>set_id := Some 1005, set_created_at := Some None\<rparr>) of
             None \<Rightarrow> True | Some y \<Rightarrow> int4_range y"
    by (simp_all add: no_change_def)
  have u2: "\<not> bookings_update_using ledger_db 2 ?b"
    and u3: "bookings_update_using ledger_db 3 ?b
      \<and> \<not> bookings_update_with_check ledger_db 3
            (apply_update (no_change\<lparr>set_mechanic_id := Some (Some 11)\<rparr>) ?b)"
    by (simp_all add: update_eval ledger_db_def example_db_def example_defs)
  have u1: "bookings_update_using ledger_db 1 ?b
      \<and> bookings_update_with_check ledger_db 1
            (apply_update (no_change\<lparr>set_notes := Some (Some ''call first'')\<rparr>) ?b)
      \<and> valid_status (b_status (apply_update (no_change\<lparr>set_notes := Some (Some ''call first'')\<rparr>) ?b))
      \<and> b_id (apply_update (no_change\<lparr>set_notes := Some (Some ''call first'')\<rparr>) ?b) = b_id ?b
      \<and> b_customer_id (apply_update (no_change\<lparr>set_notes := Some (Some ''call first'')\<rparr>) ?b)
          = b_customer_id ?b
      \<and> b_mechanic_id (apply_update (no_change\<lparr>set_notes := Some (Some ''call first'')\<rparr>) ?b)
          = b_mechanic_id ?b
      \<and> b_service_id (apply_update (no_change\<lparr>set_notes := Some (Some ''call first'')\<rparr>) ?b)
          = b_service_id ?b"
    by (simp add: update_eval ledger_db_def example_db_def example_defs)
  have r2: "update_booking (Some 2) 1000 (no_change\<lparr>set_status := Some ''cancelled''\<rparr>) ledger_db
       = Inr ledger_db"
    using booking_update_permission [OF d m y(1), of 2] u2 i by metis
  have r0: "rows_affected ledger_db (Some 2) 1000 = 0"
    using booking_update_permission [OF d m y(1), of 2] u2 i by metis
  have r3: "update_booking (Some 3) 1000 (no_change\<lparr>set_mechanic_id := Some (Some 11)\<rparr>) ledger_db
       = Inl AuthorizationError"
    using booking_update_permission [OF d m y(2), of 3] u3 i by metis
  have "update_booking (Some 1) 1000 (no_change\<lparr>set_notes := Some (Some ''call first'')\<rparr>) ledger_db
       = Inr (ledger_db\<lparr>bookings :=
           map (\<lambda>x. if b_id x = b_id ?b
                 then apply_update (no_change\<lparr>set_notes := Some (Some ''call first'')\<rparr>) x else x)
             (bookings ledger_db)\<rparr>)"
    using booking_update_permission [OF d m y(3), of 1] u1 i by metis
  then have r1: "update_booking (Some 1) 1000 (no_change\<lparr>set_notes := Some (Some ''call first'')\<rparr>) ledger_db
       = Inr (ledger_db\<lparr>bookings :=
           [(example_booking 1000 1 (Some 10) ''pending'')\<lparr>b_notes := Some ''call first''\<rparr>,
            example_booking 1001 2 None ''pending'',
            example_booking 1002 2 (Some 11) ''accepted'']\<rparr>)"
    by (simp add: apply_update_def assign_def no_change_def ledger_db_def example_booking_def)
  let ?u = "no_change\<lparr>set_id := Some 1005, set_created_at := Some None\<rparr>"
  have u5: "bookings_update_using ledger_db 3 ?b
      \<and> bookings_update_with_check ledger_db 3 (apply_update ?u ?b)
      \<and> valid_status (b_status (apply_update ?u ?b))
      \<and> b_id (apply_update ?u ?b) \<notin> set (map b_id (bookings ledger_db))
      \<and> b_id ?b \<notin> set (map r_booking_id (reviews ledger_db))
      \<and> b_customer_id (apply_update ?u ?b) = b_customer_id ?b
      \<and> b_mechanic_id (apply_update ?u ?b) = b_mechanic_id ?b
      \<and> b_service_id (apply_update ?u ?b) = b_service_id ?b"
    by (simp add: update_eval ledger_db_def example_db_def example_defs)
  have "update_booking (Some 3) 1000 ?u ledger_db
       = Inr (ledger_db\<lparr>bookings :=
           map (\<lambda>x. if b_id x = b_id ?b then apply_update ?u x else x) (bookings ledger_db)\<rparr>)"
    using booking_update_permission [OF d m y(4), of 3] u5 i by metis
  then have r5: "update_booking (Some 3) 1000 ?u ledger_db
       = Inr (ledger_db\<lparr>bookings :=
           [(example_booking 1000 1 (Some 10) ''pending'')\<lparr>b_id := 1005, b_created_at := None\<rparr>,
            example_booking 1001 2 None ''pending'',
            example_booking 1002 2 (Some 11) ''accepted'']\<rparr>)"
    by (simp add: apply_update_def assign_def no_change_def ledger_db_def example_booking_def)
  show ?thesis
    by (intro conjI) (fact d m r0 r2 r3 r1 r5)+
qed

text \<open>
  The schema has no operation by which a mechanic takes an unassigned booking: a principal
  who is not the customer of a booking without a mechanic passes no update policy for it,
  so an update of theirs affects no row.
\<close>

lemma unassigned_booking_closed_to_mechanics:
  assumes "b_mechanic_id b = None" and "b_customer_id b \<noteq> uid"
  shows "\<not> bookings_update_using db uid b"
  using assms
  by (simp add: bookings_update_using_def customers_can_update_own_bookings_def
      mechanics_can_update_assigned_bookings_def mechanic_id_in_def)

end
